theory Spec2Isabelle
  imports Complex_Main "HOL-Library.Word"
begin

unbundle bit_operations_syntax

section \<open>The modeling publisher (publishing.py) as HOL functions\<close>

text \<open>
  The publisher of \<^verbatim>\<open>publishing.py\<close> is embedded method by method. Python strings are
  \<open>string\<close>; an exception is the \<open>Inl\<close> branch of a sum; the attributes of the publisher
  object are a record that every method returns updated (also when it raises, as the
  assignments made before a \<^verbatim>\<open>raise\<close> stay); what happens outside the object (printing,
  calls into Maya, the file system, the webhook) is an explicit state that is passed through
  every call. The answers of Maya, of the operating system and of the network are not
  computed by the program: they are fields of a record \<open>world\<close> that every method reads.
\<close>

subsection \<open>Strings\<close>

text \<open>\<^verbatim>\<open>s.split(sep)\<close> for a separator of one character: never an empty list.\<close>

fun split_on :: "char \<Rightarrow> string \<Rightarrow> string list" where
  "split_on sep [] = [[]]"
| "split_on sep (c # cs) =
     (if c = sep then [] # split_on sep cs
      else (case split_on sep cs of [] \<Rightarrow> [[c]] | w # ws \<Rightarrow> (c # w) # ws))"

text \<open>\<^verbatim>\<open>sep.join(xs)\<close>.\<close>

fun join :: "string \<Rightarrow> string list \<Rightarrow> string" where
  "join sep [] = []"
| "join sep [x] = x"
| "join sep (x # y # ys) = x @ sep @ join sep (y # ys)"

subsection \<open>Floats\<close>

text \<open>
  A Python float that is finite: the number \<open>m * 2 ^ e\<close>, given by a mantissa \<open>m\<close> and an
  exponent \<open>e\<close> (a double has a mantissa below \<open>2 ^ 53\<close>). What Maya hands out for a
  transform attribute is finite; infinities and NaN are left out.
\<close>

datatype pyfloat = Float int int

text \<open>\<^verbatim>\<open>n.bit_length()\<close>.\<close>

fun bit_length :: "nat \<Rightarrow> nat" where
  "bit_length n = (if n = 0 then 0 else Suc (bit_length (n div 2)))"

declare bit_length.simps [simp del]

text \<open>\<open>a / 2 ^ s\<close> rounded to the nearest whole number, a tie to the even one.\<close>

definition shift_round :: "nat \<Rightarrow> nat \<Rightarrow> nat" where
  "shift_round a s =
     (let q = a div 2 ^ s; r = a mod 2 ^ s
      in if 2 * r > 2 ^ s \<or> (2 * r = 2 ^ s \<and> odd q) then q + 1 else q)"

text \<open>
  The double nearest to \<open>M * 2 ^ k\<close> (round to nearest, ties to even): a mantissa of more
  than 53 bits loses its low bits. The exponent is not bounded here: the difference of two
  doubles has no exponent below the least one, and nothing overflows when \<^verbatim>\<open>1.0\<close> is
  subtracted from a double.
\<close>

definition fround :: "int \<Rightarrow> int \<Rightarrow> pyfloat" where
  "fround M k =
     (let n = bit_length (nat \<bar>M\<bar>)
      in if n \<le> 53 then Float M k
         else Float (sgn M * int (shift_round (nat \<bar>M\<bar>) (n - 53))) (k + int (n - 53)))"

text \<open>\<^verbatim>\<open>a - b\<close>, \<^verbatim>\<open>abs(a)\<close> and \<^verbatim>\<open>a > b\<close> on floats.\<close>

definition fsub :: "pyfloat \<Rightarrow> pyfloat \<Rightarrow> pyfloat" where
  "fsub a b =
     (case (a, b) of (Float ma ea, Float mb eb) \<Rightarrow>
        let k = min ea eb
        in fround (ma * 2 ^ nat (ea - k) - mb * 2 ^ nat (eb - k)) k)"

definition fabs :: "pyfloat \<Rightarrow> pyfloat" where
  "fabs a = (case a of Float m e \<Rightarrow> Float \<bar>m\<bar> e)"

definition fgt :: "pyfloat \<Rightarrow> pyfloat \<Rightarrow> bool" where
  "fgt a b =
     (case (a, b) of (Float ma ea, Float mb eb) \<Rightarrow>
        let k = min ea eb
        in ma * 2 ^ nat (ea - k) > mb * 2 ^ nat (eb - k))"

text \<open>
  The literals \<^verbatim>\<open>0.001\<close> and \<^verbatim>\<open>1.0\<close>: the doubles nearest to one thousandth
  (\<open>1152921504606847 / 2 ^ 60\<close>, a little more than it) and to one.
\<close>

definition float_0_001 :: pyfloat where
  "float_0_001 = Float 1152921504606847 (- 60)"

definition float_1_0 :: pyfloat where
  "float_1_0 = Float 1 0"

subsection \<open>Exceptions\<close>

text \<open>
  Every \<^verbatim>\<open>PublishError\<close> of the source carries an f-string; the model keeps the text's
  variable part (the scene name, the offender list) as the payload.
\<close>

datatype publish_issue =
    NoSelection                      \<comment> \<open>"No selections founded."\<close>
  | WrongSceneName string            \<comment> \<open>"Wrong naming convention for your file name ..."\<close>
  | NamingStandard "string list"     \<comment> \<open>"Naming standard is not right for: ..."\<close>
  | Ngons "string list"              \<comment> \<open>"Ngons at: ..."\<close>
  | OverlappingFaces "string list"   \<comment> \<open>"Overlapping faces at: ..."\<close>
  | TransformsNotFrozen "string list" \<comment> \<open>"Transforms not frozen on: ..."\<close>
  | HistoryLeft "string list"        \<comment> \<open>"These objects still contain history: ..."\<close>
  | NoUVs string                     \<comment> \<open>"Object ... has no UVs!"\<close>

datatype request_exception =
    TransportError string            \<comment> \<open>raised by \<^verbatim>\<open>requests.post\<close>\<close>
  | HTTPError nat                    \<comment> \<open>raised by \<^verbatim>\<open>raise_for_status\<close>\<close>

datatype os_error = FileExistsError | NotADirectoryError | FileNotFoundError | IsADirectoryError

datatype py_error =
    PublishError publish_issue
  | TypeError
  | AttributeError string
  | IndexError
  | ValueError
  | OSError os_error
  | RuntimeError
  | RequestException request_exception

subsection \<open>The outside: Maya, the host, the file system\<close>

datatype query =
    FileExn                          \<comment> \<open>\<^verbatim>\<open>cmds.file(query=True, exn=True)\<close>\<close>
  | FileSn                           \<comment> \<open>\<^verbatim>\<open>cmds.file(q=True, sn=True)\<close>\<close>
  | LsMeshes "string list"           \<comment> \<open>\<^verbatim>\<open>cmds.ls(sel, dag=True, type="mesh", long=True)\<close>\<close>
  | LsSelection                      \<comment> \<open>\<^verbatim>\<open>cmds.ls(sl=True)\<close>\<close>
  | PolyInfoLamina string            \<comment> \<open>\<^verbatim>\<open>cmds.polyInfo(obj, laminaFaces=True)\<close>\<close>
  | GetAttr string                   \<comment> \<open>\<^verbatim>\<open>cmds.getAttr(name)\<close>\<close>
  | ListHistory string               \<comment> \<open>\<^verbatim>\<open>cmds.listHistory(obj, pruneDagObjects=True)\<close>\<close>
  | PolyEvaluateUV string            \<comment> \<open>\<^verbatim>\<open>cmds.polyEvaluate(obj, uv=True)\<close>\<close>

record message =
  username :: string
  title :: string
  description :: string
  color :: nat

datatype event =
    Print string
  | PrintError string py_error       \<comment> \<open>\<^verbatim>\<open>print(f"...{e}")\<close>\<close>
  | Warning string py_error          \<comment> \<open>\<^verbatim>\<open>cmds.warning(f"...{e}")\<close>\<close>
  | InViewMessage string
  | Select "string list"             \<comment> \<open>\<^verbatim>\<open>cmds.select(...)\<close>\<close>
  | ConstraintNgons                  \<comment> \<open>\<^verbatim>\<open>cmds.polySelectConstraint(mode=3, type=8, size=3)\<close>\<close>
  | ConstraintOff                    \<comment> \<open>\<^verbatim>\<open>cmds.polySelectConstraint(disable=True)\<close>\<close>
  | Asked query
  | MakeDirs string                  \<comment> \<open>\<^verbatim>\<open>os.makedirs(path, exist_ok=True)\<close>\<close>
  | ExportSelection string string    \<comment> \<open>\<^verbatim>\<open>cmds.file(path, type=output, pr=True, es=True)\<close>\<close>
  | Post "string option" message     \<comment> \<open>\<^verbatim>\<open>requests.post(bot_url, json=message)\<close>\<close>
  | OpenWrite string                 \<comment> \<open>\<^verbatim>\<open>open(path, "w")\<close>\<close>

datatype node = Dir | File string

text \<open>
  A file system maps a resolved path (absolute or not, and its components) to what is there.
  The root and the working directory are the paths without components; they always exist.
\<close>

type_synonym filesystem = "bool \<times> string list \<rightharpoonup> node"

record outside =
  trace :: "event list"
  fs :: filesystem

definition emit :: "event \<Rightarrow> outside \<Rightarrow> outside" where
  "emit e out = out\<lparr>trace := trace out @ [e]\<rparr>"

record datetime =
  year :: nat
  month :: nat
  day :: nat
  hour :: nat
  minute :: nat
  second :: nat

text \<open>What the collaborators answer.\<close>

record world =
  file_exn :: string
  file_sn :: string
  ls_meshes :: "string list \<Rightarrow> string list"
  ngon_selection :: "string list \<Rightarrow> string list"
    \<comment> \<open>what is selected once the n-sided-face constraint is applied to the meshes\<close>
  polyInfo_laminaFaces :: "string \<Rightarrow> string list option"
  getAttr :: "string \<Rightarrow> pyfloat \<times> pyfloat \<times> pyfloat"
    \<comment> \<open>\<^verbatim>\<open>cmds.getAttr(name)[0]\<close> of a three-channel attribute\<close>
  listHistory :: "string \<Rightarrow> string list option"
  polyEvaluate_uv :: "string \<Rightarrow> int"
  file_export :: "string \<Rightarrow> string \<Rightarrow> bool"
    \<comment> \<open>whether Maya's export to this path and type goes through\<close>
  environ_PIPELINE_DISCORD_BOT :: "string option"
  getuser :: string
  now :: datetime
  urandom16 :: "128 word"
  requests_post :: "string option \<Rightarrow> message \<Rightarrow> string + nat"
    \<comment> \<open>the transport's failure text, or the HTTP status of the response\<close>

subsection \<open>The publisher object\<close>

datatype py_class = MyPublisher | ModelPublisher

record publisher =
  cls :: py_class
  sel :: "string list"
  publish_api :: string
  prefix :: string
  obj_path :: string
  scene :: "string option"
  scene_name :: "string option"
  version :: "string option"
  user :: "string option"

text \<open>\<^verbatim>\<open>__init__(self, selection, shotgrid_api, prefix="geo")\<close>, for an instance of class \<open>c\<close>.\<close>

definition init :: "py_class \<Rightarrow> string list \<Rightarrow> string \<Rightarrow> string option \<Rightarrow> publisher" where
  "init c selection shotgrid_api prefix_arg =
     \<lparr>cls = c, sel = selection, publish_api = shotgrid_api,
      prefix = (case prefix_arg of None \<Rightarrow> ''geo'' | Some p \<Rightarrow> p),
      obj_path = [], scene = None, scene_name = None, version = None, user = None\<rparr>"

type_synonym 'a outcome = "(py_error + 'a) \<times> publisher \<times> outside"

subsection \<open>Collect\<close>

definition collect_assets :: "world \<Rightarrow> publisher \<Rightarrow> outside \<Rightarrow> bool outcome" where
  "collect_assets w self out =
     (if sel self = [] then (Inl (PublishError NoSelection), self, out)
      else
        let out1 = emit (Asked FileExn) out;
            name = file_exn w;
            scene' = last (split_on CHR ''/'' name);
            self1 = self\<lparr>scene := Some scene'\<rparr>;
            out2 = emit (Print (''-- Collecting Done '' @ scene' @ ''--'')) out1
        in (Inr True, self1, out2))"

subsection \<open>Verify: naming\<close>

text \<open>The loop of \<^verbatim>\<open>MyPublisher.verify_assets\<close> over the selection, with its list of offenders.\<close>

fun naming_loop :: "string \<Rightarrow> string list \<Rightarrow> string list \<Rightarrow> string list" where
  "naming_loop pfx [] wrong_names = wrong_names"
| "naming_loop pfx (obj # rest) wrong_names =
     (let node_name = last (split_on CHR ''|'' obj);
          parts = split_on CHR ''_'' node_name;
          wrong_names1 =
            (if length parts \<notin> set [3, 4] then wrong_names @ [obj] else wrong_names);
          wrong_names2 =
            (if hd parts \<noteq> pfx then wrong_names1 @ [obj] else wrong_names1)
      in naming_loop pfx rest wrong_names2)"

definition MyPublisher_verify_assets ::
  "string \<Rightarrow> world \<Rightarrow> publisher \<Rightarrow> outside \<Rightarrow> bool outcome" where
  "MyPublisher_verify_assets pfx w self out =
     (case scene self of
        None \<Rightarrow> (Inl (AttributeError ''scene''), self, out)
      | Some sc \<Rightarrow>
          let scene_length = split_on CHR ''_'' sc in
          if length scene_length \<notin> set [3, 4]
          then (Inl (PublishError (WrongSceneName sc)), self, out)
          else
            let wrong_names = naming_loop pfx (sel self) [] in
            if wrong_names \<noteq> [] then (Inl (PublishError (NamingStandard wrong_names)), self, out)
            else (Inr True, self, out))"

subsection \<open>Verify: geometry\<close>

text \<open>Python's truth value of what a Maya command returns: \<^verbatim>\<open>None\<close> or a list.\<close>

definition truthy :: "'a list option \<Rightarrow> bool" where
  "truthy r = (case r of None \<Rightarrow> False | Some xs \<Rightarrow> xs \<noteq> [])"

fun lamina_loop ::
  "world \<Rightarrow> string list \<Rightarrow> string list \<Rightarrow> outside \<Rightarrow> string list \<times> outside" where
  "lamina_loop w [] lamina_objs out = (lamina_objs, out)"
| "lamina_loop w (obj # rest) lamina_objs out =
     (let out1 = emit (Asked (PolyInfoLamina obj)) out;
          lamina = polyInfo_laminaFaces w obj
      in if truthy lamina then lamina_loop w rest (lamina_objs @ [obj]) out1
         else lamina_loop w rest lamina_objs out1)"

definition check_topology :: "world \<Rightarrow> publisher \<Rightarrow> outside \<Rightarrow> (py_error + unit) \<times> outside" where
  "check_topology w self out =
     (let out1 = emit (Select (sel self)) out;
          out2 = emit (Asked (LsMeshes (sel self))) out1;
          meshes = ls_meshes w (sel self);
          out3 = emit (Select meshes) out2;
          out4 = emit ConstraintNgons out3;
          out5 = emit (Asked LsSelection) out4;
          ngons = ngon_selection w meshes;
          out6 = emit ConstraintOff out5
      in if ngons \<noteq> [] then (Inl (PublishError (Ngons ngons)), out6)
         else
           let (lamina_objs, out7) = lamina_loop w meshes [] out6 in
           if lamina_objs \<noteq> [] then (Inl (PublishError (OverlappingFaces lamina_objs)), out7)
           else (Inr (), out7))"

fun transforms_loop ::
  "world \<Rightarrow> string list \<Rightarrow> string list \<Rightarrow> outside \<Rightarrow> string list \<times> outside" where
  "transforms_loop w [] bad_transforms out = (bad_transforms, out)"
| "transforms_loop w (obj # rest) bad_transforms out =
     (let out1 = emit (Asked (GetAttr (obj @ ''.translate''))) out;
          (t0, t1, t2) = getAttr w (obj @ ''.translate'')
      in if fgt (fabs t0) float_0_001 \<or> fgt (fabs t1) float_0_001 \<or> fgt (fabs t2) float_0_001
         then transforms_loop w rest (bad_transforms @ [obj @ '' (Translate)'']) out1
         else
           let out2 = emit (Asked (GetAttr (obj @ ''.rotate''))) out1;
               (r0, r1, r2) = getAttr w (obj @ ''.rotate'')
           in if fgt (fabs r0) float_0_001 \<or> fgt (fabs r1) float_0_001 \<or>
                 fgt (fabs r2) float_0_001
              then transforms_loop w rest (bad_transforms @ [obj @ '' (Rotate)'']) out2
              else
                let out3 = emit (Asked (GetAttr (obj @ ''.scale''))) out2;
                    (s0, s1, s2) = getAttr w (obj @ ''.scale'')
                in if fgt (fabs (fsub s0 float_1_0)) float_0_001 \<or>
                      fgt (fabs (fsub s1 float_1_0)) float_0_001 \<or>
                      fgt (fabs (fsub s2 float_1_0)) float_0_001
                   then transforms_loop w rest (bad_transforms @ [obj @ '' (Scale)'']) out3
                   else transforms_loop w rest bad_transforms out3)"

definition check_transforms :: "world \<Rightarrow> publisher \<Rightarrow> outside \<Rightarrow> (py_error + unit) \<times> outside" where
  "check_transforms w self out =
     (let (bad_transforms, out1) = transforms_loop w (sel self) [] out in
      if bad_transforms \<noteq> [] then (Inl (PublishError (TransformsNotFrozen bad_transforms)), out1)
      else (Inr (), out1))"

fun history_loop ::
  "world \<Rightarrow> string list \<Rightarrow> string list \<Rightarrow> outside \<Rightarrow> string list \<times> outside" where
  "history_loop w [] bad_obj out = (bad_obj, out)"
| "history_loop w (obj # rest) bad_obj out =
     (let out1 = emit (Asked (ListHistory obj)) out;
          history = listHistory w obj
      in if history \<noteq> None then history_loop w rest (bad_obj @ [obj]) out1
         else history_loop w rest bad_obj out1)"

definition check_history :: "world \<Rightarrow> publisher \<Rightarrow> outside \<Rightarrow> (py_error + unit) \<times> outside" where
  "check_history w self out =
     (let (bad_obj, out1) = history_loop w (sel self) [] out in
      if bad_obj \<noteq> [] then (Inl (PublishError (HistoryLeft bad_obj)), out1)
      else (Inr (), out1))"

fun uvs_loop :: "world \<Rightarrow> string list \<Rightarrow> outside \<Rightarrow> (py_error + unit) \<times> outside" where
  "uvs_loop w [] out = (Inr (), out)"
| "uvs_loop w (obj # rest) out =
     (let out1 = emit (Asked (PolyEvaluateUV obj)) out;
          uv_counts = polyEvaluate_uv w obj
      in if uv_counts = 0 then (Inl (PublishError (NoUVs obj)), out1)
         else uvs_loop w rest out1)"

definition check_uvs :: "world \<Rightarrow> publisher \<Rightarrow> outside \<Rightarrow> (py_error + unit) \<times> outside" where
  "check_uvs w self out = uvs_loop w (sel self) out"

subsection \<open>Verify: the modeling publisher's stage\<close>

definition ModelPublisher_verify_assets :: "world \<Rightarrow> publisher \<Rightarrow> outside \<Rightarrow> unit outcome" where
  "ModelPublisher_verify_assets w self out =
     (let out1 = emit (Print ''-Starting Modeling Validation-'') out;
          self1 = self\<lparr>prefix := ''geo''\<rparr>
      in case MyPublisher_verify_assets (prefix self1) w self1 out1 of
           (Inl e, self2, out2) \<Rightarrow> (Inl e, self2, out2)
         | (Inr _, self2, out2) \<Rightarrow>
      (case check_topology w self2 out2 of
           (Inl e, out3) \<Rightarrow> (Inl e, self2, out3)
         | (Inr _, out3) \<Rightarrow>
      (case check_transforms w self2 out3 of
           (Inl e, out4) \<Rightarrow> (Inl e, self2, out4)
         | (Inr _, out4) \<Rightarrow>
      (case check_history w self2 out4 of
           (Inl e, out5) \<Rightarrow> (Inl e, self2, out5)
         | (Inr _, out5) \<Rightarrow>
      (case check_uvs w self2 out5 of
           (Inl e, out6) \<Rightarrow> (Inl e, self2, out6)
         | (Inr _, out6) \<Rightarrow>
             (Inr (), self2, emit (Print ''--Verifying done---'') out6))))))"

subsection \<open>Paths\<close>

text \<open>
  \<^verbatim>\<open>pathlib\<close> and \<^verbatim>\<open>os.path\<close> in their POSIX flavour (Maya hands out paths with forward
  slashes). A pure path is its anchor (empty, one slash or two) and its components.
\<close>

type_synonym pure_path = "string \<times> string list"

text \<open>\<^verbatim>\<open>posixpath.splitroot\<close>, without the drive (always empty).\<close>

definition splitroot :: "string \<Rightarrow> string \<times> string" where
  "splitroot p =
     (if take 1 p \<noteq> ''/'' then ([], p)
      else if take 1 (drop 1 p) \<noteq> ''/'' \<or> take 1 (drop 2 p) = ''/'' then (''/'', drop 1 p)
      else (take 2 p, drop 2 p))"

text \<open>\<^verbatim>\<open>pathlib.Path(s)\<close>: empty components and \<^verbatim>\<open>.\<close> are dropped.\<close>

definition Path :: "string \<Rightarrow> pure_path" where
  "Path s =
     (if s = [] then ([], [])
      else let (anchor, rel) = splitroot s
           in (anchor, filter (\<lambda>x. x \<noteq> [] \<and> x \<noteq> ''.'') (split_on CHR ''/'' rel)))"

text \<open>\<^verbatim>\<open>str(path)\<close>.\<close>

definition str_path :: "pure_path \<Rightarrow> string" where
  "str_path p =
     (case p of (anchor, tail) \<Rightarrow>
        let s = anchor @ join ''/'' tail in if s = [] then ''.'' else s)"

text \<open>\<^verbatim>\<open>path.parents[idx]\<close> for an index that is not negative.\<close>

definition parents :: "pure_path \<Rightarrow> nat \<Rightarrow> py_error + pure_path" where
  "parents p idx =
     (case p of (anchor, tail) \<Rightarrow>
        if idx \<ge> length tail then Inl IndexError
        else Inr (anchor, take (length tail - idx - 1) tail))"

text \<open>\<^verbatim>\<open>s.rfind(c)\<close>.\<close>

definition rfind :: "char \<Rightarrow> string \<Rightarrow> int" where
  "rfind c s =
     (if c \<in> set s then int (length s) - 1 - int (length (takeWhile (\<lambda>x. x \<noteq> c) (rev s)))
      else - 1)"

text \<open>\<^verbatim>\<open>path.suffix\<close> and \<^verbatim>\<open>path.with_suffix(suffix)\<close>.\<close>

definition suffix :: "pure_path \<Rightarrow> string" where
  "suffix p =
     (case p of (anchor, tail) \<Rightarrow>
        let name = (if tail = [] then [] else last tail);
            i = rfind CHR ''.'' name
        in if 0 < i \<and> i < int (length name) - 1 then drop (nat i) name else [])"

definition with_suffix :: "pure_path \<Rightarrow> string \<Rightarrow> py_error + pure_path" where
  "with_suffix p sfx =
     (case p of (anchor, tail) \<Rightarrow>
        if CHR ''/'' \<in> set sfx then Inl ValueError
        else if (sfx \<noteq> [] \<and> take 1 sfx \<noteq> ''.'') \<or> sfx = ''.'' then Inl ValueError
        else
          let name = (if tail = [] then [] else last tail) in
          if name = [] then Inl ValueError
          else
            let old_suffix = suffix p;
                name' = (if old_suffix = [] then name @ sfx
                         else take (length name - length old_suffix) name @ sfx)
            in Inr (anchor, butlast tail @ [name']))"

text \<open>\<^verbatim>\<open>os.path.basename(p)\<close>: what follows the last slash.\<close>

definition basename :: "string \<Rightarrow> string" where
  "basename p = drop (nat (rfind CHR ''/'' p + 1)) p"

text \<open>\<^verbatim>\<open>os.path.join(a, b)\<close>.\<close>

definition path_join :: "string \<Rightarrow> string \<Rightarrow> string" where
  "path_join a b =
     (if take 1 b = ''/'' then b
      else if a = [] \<or> last a = CHR ''/'' then a @ b
      else a @ ''/'' @ b)"

subsection \<open>The file system\<close>

text \<open>
  How the operating system reads a path: from the root or from the working directory, by
  its components; empty components and \<^verbatim>\<open>.\<close> do not count. Symbolic links, \<^verbatim>\<open>..\<close> and
  permissions are not modelled.
\<close>

definition resolve :: "string \<Rightarrow> bool \<times> string list" where
  "resolve p = (take 1 p = ''/'', filter (\<lambda>x. x \<noteq> [] \<and> x \<noteq> ''.'') (split_on CHR ''/'' p))"

text \<open>
  \<^verbatim>\<open>os.makedirs(name, exist_ok=True)\<close>: every directory on the way that is not there is
  made; one that is there is left alone; a file in the way is an error.
\<close>

fun mkdir_chain ::
  "filesystem \<Rightarrow> bool \<Rightarrow> string list \<Rightarrow> string list \<Rightarrow> (py_error + unit) \<times> filesystem" where
  "mkdir_chain f ab made [] = (Inr (), f)"
| "mkdir_chain f ab made (c # cs) =
     (case f (ab, made @ [c]) of
        None \<Rightarrow> mkdir_chain (f((ab, made @ [c]) \<mapsto> Dir)) ab (made @ [c]) cs
      | Some Dir \<Rightarrow> mkdir_chain f ab (made @ [c]) cs
      | Some (File content) \<Rightarrow>
          (Inl (OSError (if cs = [] then FileExistsError else NotADirectoryError)), f))"

definition makedirs :: "string \<Rightarrow> outside \<Rightarrow> (py_error + unit) \<times> outside" where
  "makedirs name out =
     (let out1 = emit (MakeDirs name) out in
      if name = [] then (Inl (OSError FileNotFoundError), out1)
      else
        let (ab, cs) = resolve name;
            (r, f') = mkdir_chain (fs out1) ab [] cs
        in (r, out1\<lparr>fs := f'\<rparr>))"

text \<open>
  \<^verbatim>\<open>with open(name, "w") as f: f.write(content)\<close>: the directory of the file has to be
  there; the file is created or overwritten.
\<close>

definition open_write :: "string \<Rightarrow> string \<Rightarrow> outside \<Rightarrow> (py_error + unit) \<times> outside" where
  "open_write name content out =
     (let out1 = emit (OpenWrite name) out;
          (ab, cs) = resolve name
      in if name = [] then (Inl (OSError FileNotFoundError), out1)
         else if cs = [] then (Inl (OSError IsADirectoryError), out1)
         else
           (case (if butlast cs = [] then Some Dir else fs out1 (ab, butlast cs)) of
              None \<Rightarrow> (Inl (OSError FileNotFoundError), out1)
            | Some (File other) \<Rightarrow> (Inl (OSError NotADirectoryError), out1)
            | Some Dir \<Rightarrow>
                (case fs out1 (ab, cs) of
                   Some Dir \<Rightarrow> (Inl (OSError IsADirectoryError), out1)
                 | _ \<Rightarrow> (Inr (), out1\<lparr>fs := (fs out1)((ab, cs) \<mapsto> File content)\<rparr>))))"

subsection \<open>Extract\<close>

definition MyPublisher_extract_assets :: "world \<Rightarrow> publisher \<Rightarrow> outside \<Rightarrow> unit outcome" where
  "MyPublisher_extract_assets w self out = (Inr (), self, out)"

definition ModelPublisher_extract_assets ::
  "string \<Rightarrow> world \<Rightarrow> publisher \<Rightarrow> outside \<Rightarrow> unit outcome" where
  "ModelPublisher_extract_assets output w self out =
     (let out1 = emit (Print ''-Starting Export-'') out;
          out2 = emit (Select (sel self)) out1;
          out3 = emit (Asked FileSn) out2;
          scene_path = file_sn w;
          scenes_folder = Path scene_path
      in case parents scenes_folder 1 of
           Inl e \<Rightarrow> (Inl e, self, out3)
         | Inr scene_dir \<Rightarrow>
             let scene_name' = hd (split_on CHR ''.'' (basename scene_path));
                 self1 = self\<lparr>scene_name := Some scene_name'\<rparr>;
                 version' = last (split_on CHR ''_'' scene_name');
                 self2 = self1\<lparr>version := Some version'\<rparr>;
                 asset_folder = ''assets/'' @ scene_name' @ ''/modeling/'';
                 asset_dir = path_join (str_path scene_dir) asset_folder
             in case makedirs asset_dir out3 of
                  (Inl e, out4) \<Rightarrow> (Inl e, self2, out4)
                | (Inr u, out4) \<Rightarrow>
                    let self3 = self2\<lparr>obj_path := path_join asset_dir scene_name'\<rparr>;
                        out5 = emit (ExportSelection (obj_path self3) output) out4
                    in if \<not> file_export w (obj_path self3) output
                       then (Inl RuntimeError, self3, out5)
                       else (Inr (), self3, emit (Print ''--Export done--'') out5))"

subsection \<open>Implement: the notification\<close>

text \<open>
  The body of the \<^verbatim>\<open>try\<close> of \<^verbatim>\<open>discord_notification\<close>: the post, \<^verbatim>\<open>raise_for_status\<close>
  (an HTTP status from 400 to 599 raises), the print. Everything that \<^verbatim>\<open>requests\<close> raises
  is a \<^verbatim>\<open>RequestException\<close>.
\<close>

definition discord_notification_try ::
  "world \<Rightarrow> string option \<Rightarrow> message \<Rightarrow> outside \<Rightarrow> (py_error + unit) \<times> outside" where
  "discord_notification_try w bot_url msg out =
     (let out1 = emit (Post bot_url msg) out in
      case requests_post w bot_url msg of
        Inl text \<Rightarrow> (Inl (RequestException (TransportError text)), out1)
      | Inr status \<Rightarrow>
          if 400 \<le> status \<and> status < 600 then (Inl (RequestException (HTTPError status)), out1)
          else (Inr (), emit (Print ''Discord notification sent.'') out1))"

text \<open>
  The handler catches \<^verbatim>\<open>requests.exceptions.RequestException\<close> and nothing else; any
  other exception of the body would go on to the caller.
\<close>

definition discord_notification ::
  "string \<Rightarrow> string \<Rightarrow> string \<Rightarrow> string option \<Rightarrow> world \<Rightarrow> publisher \<Rightarrow> outside \<Rightarrow>
   message outcome" where
  "discord_notification asset_name ver department bot_url w self out =
     (let green_color = 5763719;
          self1 = self\<lparr>user := Some (getuser w)\<rparr>;
          msg = \<lparr>username = ''Pipeline Bot'',
                 title = ''Asset Published Successfully.'',
                 description =
                   asset_name @ '' version: '' @ ver @ '' for '' @ department @ '' '' @
                   [CHR 0x0A] @ replicate 36 CHR '' '' @
                   ''has been successfully exported by '' @ getuser w @ ''.'',
                 color = green_color\<rparr>
      in case discord_notification_try w bot_url msg out of
           (Inr u, out1) \<Rightarrow> (Inr msg, self1, out1)
         | (Inl (RequestException e), out1) \<Rightarrow>
             (Inr msg, self1,
              emit (PrintError ''Discord notification failed: '' (RequestException e)) out1)
         | (Inl e, out1) \<Rightarrow> (Inl e, self1, out1))"

subsection \<open>Implement: the record\<close>

definition hexdigit :: "nat \<Rightarrow> char" where
  "hexdigit n = ''0123456789abcdef'' ! (n mod 16)"

text \<open>
  \<^verbatim>\<open>json.dump(d, f, indent=4)\<close> for a dictionary of strings, in the order of insertion,
  with the escapes of \<^verbatim>\<open>ensure_ascii\<close>. A character is a code point below 256.
\<close>

definition json_escape :: "char \<Rightarrow> string" where
  "json_escape c =
     (if c = CHR 0x22 then [CHR 0x5C, CHR 0x22]
      else if c = CHR 0x5C then [CHR 0x5C, CHR 0x5C]
      else if c = CHR 0x08 then [CHR 0x5C, CHR ''b'']
      else if c = CHR 0x0C then [CHR 0x5C, CHR ''f'']
      else if c = CHR 0x0A then [CHR 0x5C, CHR ''n'']
      else if c = CHR 0x0D then [CHR 0x5C, CHR ''r'']
      else if c = CHR 0x09 then [CHR 0x5C, CHR ''t'']
      else if (of_char c :: nat) < 32 \<or> (of_char c :: nat) > 126
      then [CHR 0x5C, CHR ''u'', CHR ''0'', CHR ''0'',
            hexdigit (of_char c div 16), hexdigit (of_char c mod 16)]
      else [c])"

definition json_string :: "string \<Rightarrow> string" where
  "json_string s = [CHR 0x22] @ concat (map json_escape s) @ [CHR 0x22]"

definition json_dump :: "(string \<times> string) list \<Rightarrow> string" where
  "json_dump d =
     (if d = [] then ''{}''
      else ''{'' @ [CHR 0x0A] @
           join ('','' @ [CHR 0x0A])
             (map (\<lambda>(k, v). replicate 4 CHR '' '' @ json_string k @ '': '' @ json_string v) d) @
           [CHR 0x0A] @ ''}'')"

definition csv_publisher ::
  "(string \<times> string) list \<Rightarrow> world \<Rightarrow> publisher \<Rightarrow> outside \<Rightarrow>
   (string \<times> string) list outcome" where
  "csv_publisher asset_data w self out =
     (let current_path = Path (obj_path self) in
      case with_suffix current_path [] of
        Inl e \<Rightarrow> (Inl e, self, out)
      | Inr stripped \<Rightarrow>
          let db_path = str_path stripped @ ''_metadata.json'' in
          case open_write db_path (json_dump asset_data) out of
            (Inl e, out1) \<Rightarrow> (Inl e, self, out1)
          | (Inr u, out1) \<Rightarrow> (Inr asset_data, self, out1))"

text \<open>\<^verbatim>\<open>str(n)\<close> and the two-digit fields of \<^verbatim>\<open>strftime\<close>.\<close>

fun str_nat :: "nat \<Rightarrow> string" where
  "str_nat n =
     (if n < 10 then [char_of (48 + n)] else str_nat (n div 10) @ [char_of (48 + n mod 10)])"

declare str_nat.simps [simp del]

definition two_digits :: "nat \<Rightarrow> string" where
  "two_digits n = (if n < 10 then CHR ''0'' # str_nat n else str_nat n)"

text \<open>
  \<^verbatim>\<open>t.strftime("%Y%m%d-%H%M%S")\<close>. The year is written as it is; for the years from 1000
  on, which \<^verbatim>\<open>now()\<close> gives, the platforms agree on that.
\<close>

definition strftime :: "datetime \<Rightarrow> string" where
  "strftime t =
     str_nat (year t) @ two_digits (month t) @ two_digits (day t) @ ''-'' @
     two_digits (hour t) @ two_digits (minute t) @ two_digits (second t)"

text \<open>
  \<^verbatim>\<open>uuid.uuid4()\<close>: sixteen random bytes with the variant and version bits set;
  \<^verbatim>\<open>.hex\<close>: the 32 hexadecimal digits of the number; \<^verbatim>\<open>.upper()\<close> on such digits.
\<close>

definition uuid4 :: "128 word \<Rightarrow> 128 word" where
  "uuid4 b =
     (((b AND NOT (push_bit 48 0xc000)) OR push_bit 48 0x8000)
        AND NOT (push_bit 64 0xf000)) OR push_bit 76 4"

definition hex :: "128 word \<Rightarrow> string" where
  "hex x = map (\<lambda>i. hexdigit (unat (drop_bit (4 * (31 - i)) x AND 0xf))) [0..<32]"

definition upper :: "string \<Rightarrow> string" where
  "upper s =
     map (\<lambda>c. if 97 \<le> (of_char c :: nat) \<and> (of_char c :: nat) \<le> 122
              then char_of ((of_char c :: nat) - 32) else c) s"

definition MyPublisher_implement_assets :: "world \<Rightarrow> publisher \<Rightarrow> outside \<Rightarrow> unit outcome" where
  "MyPublisher_implement_assets w self out = (Inr (), self, out)"

definition ModelPublisher_implement_assets ::
  "string \<Rightarrow> world \<Rightarrow> publisher \<Rightarrow> outside \<Rightarrow> unit outcome" where
  "ModelPublisher_implement_assets descr w self out =
     (let bot = environ_PIPELINE_DISCORD_BOT w;
          department = ''modeling''
      in case scene_name self of
           None \<Rightarrow> (Inl (AttributeError ''scene_name''), self, out)
         | Some sn \<Rightarrow>
      (case version self of
           None \<Rightarrow> (Inl (AttributeError ''version''), self, out)
         | Some ver \<Rightarrow>
      (case discord_notification sn ver department bot w self out of
           (Inl e, self1, out1) \<Rightarrow> (Inl e, self1, out1)
         | (Inr msg, self1, out1) \<Rightarrow>
             let timestamp = strftime (now w);
                 unique_hash = upper (take 8 (hex (uuid4 (urandom16 w))))
             in case user self1 of
                  None \<Rightarrow> (Inl (AttributeError ''user''), self1, out1)
                | Some usr \<Rightarrow>
                    let asset_data =
                          [(''id'', unique_hash), (''date'', timestamp), (''name'', sn),
                           (''version'', ver), (''path'', obj_path self1), (''user'', usr),
                           (''description'', descr)];
                        out2 = emit (Print ''csv printing'') out1
                    in case csv_publisher asset_data w self1 out2 of
                         (Inl e, self2, out3) \<Rightarrow> (Inl e, self2, out3)
                       | (Inr d, self2, out3) \<Rightarrow>
                           (Inr (), self2, emit (Print ''done csv'') out3))))"

subsection \<open>Calling a method\<close>

text \<open>
  How Python binds the arguments of a call to the parameters of a method after \<^verbatim>\<open>self\<close>,
  each with its default if it has one: positional arguments in order, then keywords. Too
  many positional arguments, a keyword for a filled or unknown parameter, and a parameter
  left without a value are each a \<^verbatim>\<open>TypeError\<close>.
\<close>

fun bind_args ::
  "(string \<times> string option) list \<Rightarrow> string list \<Rightarrow> (string \<times> string) list \<Rightarrow>
   py_error + (string \<Rightarrow> string)" where
  "bind_args [] pos kw = (if pos = [] \<and> kw = [] then Inr (\<lambda>p. []) else Inl TypeError)"
| "bind_args ((p, dflt) # ps) (a # rest) kw =
     (if p \<in> set (map fst kw) then Inl TypeError
      else case bind_args ps rest kw of
             Inl e \<Rightarrow> Inl e
           | Inr env \<Rightarrow> Inr (env(p := a)))"
| "bind_args ((p, dflt) # ps) [] kw =
     (case map_of kw p of
        Some v \<Rightarrow>
          (case bind_args ps [] (filter (\<lambda>kv. fst kv \<noteq> p) kw) of
             Inl e \<Rightarrow> Inl e
           | Inr env \<Rightarrow> Inr (env(p := v)))
      | None \<Rightarrow>
          (case dflt of
             None \<Rightarrow> Inl TypeError
           | Some d \<Rightarrow>
               (case bind_args ps [] kw of
                  Inl e \<Rightarrow> Inl e
                | Inr env \<Rightarrow> Inr (env(p := d)))))"

text \<open>
  \<^verbatim>\<open>self.verify_assets(...)\<close>, \<^verbatim>\<open>self.extract_assets(...)\<close> and
  \<^verbatim>\<open>self.implement_assets(...)\<close>: the method of the object's class, with its parameters.
\<close>

definition call_verify_assets ::
  "string list \<Rightarrow> (string \<times> string) list \<Rightarrow> world \<Rightarrow> publisher \<Rightarrow> outside \<Rightarrow> unit outcome" where
  "call_verify_assets pos kw w self out =
     (case cls self of
        MyPublisher \<Rightarrow>
          (case bind_args [(''prefix'', None)] pos kw of
             Inl e \<Rightarrow> (Inl e, self, out)
           | Inr env \<Rightarrow>
               (case MyPublisher_verify_assets (env ''prefix'') w self out of
                  (Inl e, self1, out1) \<Rightarrow> (Inl e, self1, out1)
                | (Inr b, self1, out1) \<Rightarrow> (Inr (), self1, out1)))
      | ModelPublisher \<Rightarrow>
          (case bind_args [] pos kw of
             Inl e \<Rightarrow> (Inl e, self, out)
           | Inr env \<Rightarrow> ModelPublisher_verify_assets w self out))"

definition call_extract_assets ::
  "string list \<Rightarrow> (string \<times> string) list \<Rightarrow> world \<Rightarrow> publisher \<Rightarrow> outside \<Rightarrow> unit outcome" where
  "call_extract_assets pos kw w self out =
     (case cls self of
        MyPublisher \<Rightarrow>
          (case bind_args [] pos kw of
             Inl e \<Rightarrow> (Inl e, self, out)
           | Inr env \<Rightarrow> MyPublisher_extract_assets w self out)
      | ModelPublisher \<Rightarrow>
          (case bind_args [(''output'', None)] pos kw of
             Inl e \<Rightarrow> (Inl e, self, out)
           | Inr env \<Rightarrow> ModelPublisher_extract_assets (env ''output'') w self out))"

definition call_implement_assets ::
  "string list \<Rightarrow> (string \<times> string) list \<Rightarrow> world \<Rightarrow> publisher \<Rightarrow> outside \<Rightarrow> unit outcome" where
  "call_implement_assets pos kw w self out =
     (case cls self of
        MyPublisher \<Rightarrow>
          (case bind_args [] pos kw of
             Inl e \<Rightarrow> (Inl e, self, out)
           | Inr env \<Rightarrow> MyPublisher_implement_assets w self out)
      | ModelPublisher \<Rightarrow>
          (case bind_args [(''description'', Some [])] pos kw of
             Inl e \<Rightarrow> (Inl e, self, out)
           | Inr env \<Rightarrow> ModelPublisher_implement_assets (env ''description'') w self out))"

subsection \<open>The inherited main, and the window's own sequence\<close>

text \<open>The body of the \<^verbatim>\<open>try\<close> of \<^verbatim>\<open>MyPublisher.main\<close>.\<close>

definition main_try :: "world \<Rightarrow> publisher \<Rightarrow> outside \<Rightarrow> bool outcome" where
  "main_try w self out =
     (case collect_assets w self out of
        (Inl e, self1, out1) \<Rightarrow> (Inl e, self1, out1)
      | (Inr b, self1, out1) \<Rightarrow>
     (case call_verify_assets [prefix self1] [] w self1 out1 of
        (Inl e, self2, out2) \<Rightarrow> (Inl e, self2, out2)
      | (Inr u, self2, out2) \<Rightarrow>
     (case call_extract_assets [] [] w self2 out2 of
        (Inl e, self3, out3) \<Rightarrow> (Inl e, self3, out3)
      | (Inr u, self3, out3) \<Rightarrow>
     (case call_implement_assets [] [] w self3 out3 of
        (Inl e, self4, out4) \<Rightarrow> (Inl e, self4, out4)
      | (Inr u, self4, out4) \<Rightarrow>
          (Inr True, self4,
           emit (Print ''Succesfully exported.'')
             (emit (InViewMessage ''Published Successfully!'') out4))))))"

definition main :: "world \<Rightarrow> publisher \<Rightarrow> outside \<Rightarrow> bool outcome" where
  "main w self out =
     (let out0 = emit (Print '' -- Starting publsihing--'') out in
      case main_try w self out0 of
        (Inr b, self1, out1) \<Rightarrow> (Inr b, self1, out1)
      | (Inl (PublishError i), self1, out1) \<Rightarrow>
          (Inl (PublishError i), self1,
           emit (Warning ''Publish failed: '' (PublishError i))
             (emit (PrintError ''Published failed: '' (PublishError i)) out1))
      | (Inl e, self1, out1) \<Rightarrow>
          (Inl e, self1,
           emit (Warning ''Critical Error: '' e) (emit (PrintError ''Critical Error: '' e) out1)))"

text \<open>
  The four calls of \<^verbatim>\<open>PublisherWindow.run_publish\<close> (\<^verbatim>\<open>publish_UI.py\<close>), each stage by
  its own method, on the publisher the window has made; the widgets are left out.
\<close>

definition run_publish :: "string list \<Rightarrow> string \<Rightarrow> world \<Rightarrow> outside \<Rightarrow> unit outcome" where
  "run_publish selection output_format w out =
     (let pub = init ModelPublisher selection ''http://shotgrid.api.link'' None in
      case collect_assets w pub out of
        (Inl e, pub1, out1) \<Rightarrow> (Inl e, pub1, out1)
      | (Inr b, pub1, out1) \<Rightarrow>
     (case call_verify_assets [] [] w pub1 out1 of
        (Inl e, pub2, out2) \<Rightarrow> (Inl e, pub2, out2)
      | (Inr u, pub2, out2) \<Rightarrow>
     (case call_extract_assets [] [(''output'', output_format)] w pub2 out2 of
        (Inl e, pub3, out3) \<Rightarrow> (Inl e, pub3, out3)
      | (Inr u, pub3, out3) \<Rightarrow> call_implement_assets [] [] w pub3 out3)))"

section \<open>The specification's vocabulary\<close>

text \<open>
  The definitions of this section follow the words of the specification, not the code; the
  theorems below compare the code's functions with them.
\<close>

subsection \<open>Naming rule 2\<close>

text \<open>The tokens of an object's leaf name (what follows the last hierarchy separator).\<close>

definition leaf_tokens :: "string \<Rightarrow> string list" where
  "leaf_tokens obj = split_on CHR ''_'' (last (split_on CHR ''|'' obj))"

text \<open>
  What one object adds to the offender list: itself once for a token count outside 3 and 4,
  and itself once more for a first token that is not the prefix.
\<close>

definition naming_offences :: "string \<Rightarrow> string \<Rightarrow> string list" where
  "naming_offences pfx obj =
     (if length (leaf_tokens obj) \<notin> {3, 4} then [obj] else []) @
     (if hd (leaf_tokens obj) \<noteq> pfx then [obj] else [])"

subsection \<open>Transform tolerance\<close>

text \<open>
  The number a float denotes, and what makes it a double. The tolerance is the number that
  the literal \<^verbatim>\<open>0.001\<close> denotes. A channel is in tolerance when none of its three
  numbers is further from the centre than the tolerance.
\<close>

definition float_value :: "pyfloat \<Rightarrow> real" where
  "float_value x = (case x of Float m e \<Rightarrow> of_int m * 2 powi e)"

definition is_double :: "pyfloat \<Rightarrow> bool" where
  "is_double x = (case x of Float m e \<Rightarrow> \<bar>m\<bar> < 2 ^ 53 \<and> - 1074 \<le> e \<and> e \<le> 971)"

definition tolerance :: real where
  "tolerance = 1152921504606847 / 2 ^ 60"

definition in_tolerance :: "real \<Rightarrow> pyfloat \<times> pyfloat \<times> pyfloat \<Rightarrow> bool" where
  "in_tolerance centre v =
     (case v of (a, b, c) \<Rightarrow>
        \<bar>float_value a - centre\<bar> \<le> tolerance \<and> \<bar>float_value b - centre\<bar> \<le> tolerance \<and>
        \<bar>float_value c - centre\<bar> \<le> tolerance)"

definition doubles :: "pyfloat \<times> pyfloat \<times> pyfloat \<Rightarrow> bool" where
  "doubles v = (case v of (a, b, c) \<Rightarrow> is_double a \<and> is_double b \<and> is_double c)"

text \<open>The first channel of an object, in the order translate, rotate, scale, out of tolerance.\<close>

definition first_bad_channel :: "world \<Rightarrow> string \<Rightarrow> string option" where
  "first_bad_channel w obj =
     (if \<not> in_tolerance 0 (getAttr w (obj @ ''.translate'')) then Some ''Translate''
      else if \<not> in_tolerance 0 (getAttr w (obj @ ''.rotate'')) then Some ''Rotate''
      else if \<not> in_tolerance 1 (getAttr w (obj @ ''.scale'')) then Some ''Scale''
      else None)"

definition transform_flag :: "world \<Rightarrow> string \<Rightarrow> string list" where
  "transform_flag w obj =
     (case first_bad_channel w obj of None \<Rightarrow> [] | Some ch \<Rightarrow> [obj @ '' ('' @ ch @ '')''])"

text \<open>The channels read for an object: up to and including the first one out of tolerance.\<close>

definition channels_read :: "world \<Rightarrow> string \<Rightarrow> string list" where
  "channels_read w obj =
     (case first_bad_channel w obj of
        None \<Rightarrow> [''translate'', ''rotate'', ''scale'']
      | Some ch \<Rightarrow>
          if ch = ''Translate'' then [''translate'']
          else if ch = ''Rotate'' then [''translate'', ''rotate'']
          else [''translate'', ''rotate'', ''scale''])"

definition transform_queries :: "world \<Rightarrow> string \<Rightarrow> event list" where
  "transform_queries w obj = map (\<lambda>ch. Asked (GetAttr (obj @ ''.'' @ ch))) (channels_read w obj)"

subsection \<open>History\<close>


subsection \<open>A scene to evaluate on\<close>

text \<open>A clean scene: nothing to complain about, the webhook answers, the export goes through.\<close>

definition example_world :: world where
  "example_world =
     \<lparr>file_exn = ''/work/project/scenes/seq010/show_seq010_model_v002.ma'',
      file_sn = ''/work/project/scenes/seq010/show_seq010_model_v002.ma'',
      ls_meshes = map (\<lambda>obj. obj @ ''Shape''),
      ngon_selection = (\<lambda>meshes. []),
      polyInfo_laminaFaces = (\<lambda>mesh. None),
      getAttr = (\<lambda>name. if last (split_on CHR ''.'' name) = ''scale''
                        then (Float 1 0, Float 1 0, Float 1 0)
                        else (Float 0 0, Float 0 0, Float 0 0)),
      listHistory = (\<lambda>obj. None),
      polyEvaluate_uv = (\<lambda>obj. 24),
      file_export = (\<lambda>path output. True),
      environ_PIPELINE_DISCORD_BOT = Some ''https://discord.example/api/webhooks/1'',
      getuser = ''artist'',
      now = \<lparr>year = 2025, month = 3, day = 9, hour = 14, minute = 5, second = 7\<rparr>,
      urandom16 = 0x3f2a9c0e11d24b7a8c5e0f1a2b3c4d5e,
      requests_post = (\<lambda>url msg. Inr 204)\<rparr>"

definition example_out :: outside where
  "example_out = \<lparr>trace = [], fs = Map.empty\<rparr>"

subsection \<open>The publish record\<close>

text \<open>The record of the specification with its seven fields, in their order.\<close>

definition publish_record ::
  "string \<Rightarrow> string \<Rightarrow> string \<Rightarrow> string \<Rightarrow> string \<Rightarrow> string \<Rightarrow> string \<Rightarrow> (string \<times> string) list" where
  "publish_record record_id date name ver path usr descr =
     [(''id'', record_id), (''date'', date), (''name'', name), (''version'', ver),
      (''path'', path), (''user'', usr), (''description'', descr)]"

text \<open>The identifier matches \<^verbatim>\<open>^[0-9A-F]{8}$\<close>; the date reads \<^verbatim>\<open>YYYYMMDD-HHMMSS\<close>.\<close>

definition id_format_ok :: "string \<Rightarrow> bool" where
  "id_format_ok s = (length s = 8 \<and> list_all (\<lambda>c. c \<in> set ''0123456789ABCDEF'') s)"

definition is_digit :: "char \<Rightarrow> bool" where
  "is_digit c = (c \<in> set ''0123456789'')"

definition date_format_ok :: "string \<Rightarrow> bool" where
  "date_format_ok s =
     (length s = 15 \<and> list_all is_digit (take 8 s) \<and> s ! 8 = CHR ''-'' \<and>
      list_all is_digit (drop 9 s))"

text \<open>A moment as \<^verbatim>\<open>datetime.now()\<close> gives it, in a year of four digits.\<close>

definition datetime_in_range :: "datetime \<Rightarrow> bool" where
  "datetime_in_range t =
     (1000 \<le> year t \<and> year t \<le> 9999 \<and> 1 \<le> month t \<and> month t \<le> 12 \<and>
      1 \<le> day t \<and> day t \<le> 31 \<and> hour t < 24 \<and> minute t < 60 \<and> second t < 60)"

text \<open>One line of the pretty-printed object: four spaces, the key in quotes, the value.\<close>

definition quoted :: "string \<Rightarrow> string" where
  "quoted s = [CHR 0x22] @ s @ [CHR 0x22]"

definition json_line :: "string \<Rightarrow> string \<Rightarrow> string" where
  "json_line k v = replicate 4 CHR '' '' @ quoted k @ '': '' @ json_string v"

subsection \<open>A publisher to evaluate on\<close>

text \<open>The window's publisher for one well-named object, and where Extract leaves it.\<close>

definition example_pub :: publisher where
  "example_pub = init ModelPublisher [''geo_hero_body''] ''http://shotgrid.api.link'' None"

definition example_extracted :: "publisher \<times> outside" where
  "example_extracted =
     snd (ModelPublisher_extract_assets ''OBJexport'' example_world example_pub example_out)"

subsection \<open>Path derivation\<close>

text \<open>
  The scene name of a scene file: its name up to the first dot. The version of a scene
  name: what follows its last underscore (all of it if there is none).
\<close>

definition scene_name_of :: "string \<Rightarrow> string" where
  "scene_name_of file = takeWhile (\<lambda>c. c \<noteq> CHR ''.'') file"

definition version_of :: "string \<Rightarrow> string" where
  "version_of name = rev (takeWhile (\<lambda>c. c \<noteq> CHR ''_'') (rev name))"

text \<open>
  \<^verbatim>\<open>{root}/assets/{sceneName}/modeling/\<close> for the root directory with the components
  \<open>ds\<close> under the anchor (nothing for a relative path, a slash for an absolute one). The
  root without components is written \<^verbatim>\<open>.\<close> or \<^verbatim>\<open>/\<close>, and no slash is added to the latter.
\<close>

definition asset_directory :: "string \<Rightarrow> string list \<Rightarrow> string \<Rightarrow> string" where
  "asset_directory anchor ds name =
     (let root_dir = (if ds = [] \<and> anchor = [] then ''.'' else anchor @ join ''/'' ds)
      in (if root_dir = ''/'' then root_dir else root_dir @ ''/'') @
         ''assets/'' @ name @ ''/modeling/'')"

text \<open>
  A file name without its extension: what precedes its last dot, if that dot is neither the
  first nor the last character of the name; otherwise the name itself.
\<close>

definition stem :: "string \<Rightarrow> string" where
  "stem name =
     (let ext = rev (takeWhile (\<lambda>c. c \<noteq> CHR ''.'') (rev name))
      in if CHR ''.'' \<in> set name \<and> ext \<noteq> [] \<and> length ext + 1 < length name
         then take (length name - length ext - 1) name
         else name)"

text \<open>
  A publisher whose export base path has an extension, in a file system where the directory
  of that path is there; and a description with every kind of character that JSON escapes.
\<close>

definition example_exported :: "publisher \<times> outside" where
  "example_exported =
     (example_pub\<lparr>scene_name := Some ''show_model_v002'', version := Some ''v002'',
        obj_path := ''/work/publish/show_model.v002.obj''\<rparr>,
      \<lparr>trace = [],
       fs = [(True, [''work'']) \<mapsto> Dir, (True, [''work'', ''publish'']) \<mapsto> Dir]\<rparr>)"

definition example_description :: string where
  "example_description =
     ''say '' @ [CHR 0x22] @ ''hi'' @ [CHR 0x22, CHR 0x5C, CHR 0x08, CHR 0x0C, CHR 0x0A,
       CHR 0x0D, CHR 0x09, CHR 0x01, CHR 0x7F, CHR 0xE9] @ ''!''"


section \<open>Properties\<close>

subsection \<open>Strings and loops\<close>

lemma split_on_not_Nil: "split_on sep s \<noteq> []"
  by (induction s) (auto split: list.splits)

lemma naming_loop_eq:
  "naming_loop pfx xs acc = acc @ concat (map (naming_offences pfx) xs)"
  by (induction xs arbitrary: acc) (simp_all add: Let_def naming_offences_def leaf_tokens_def)

lemma count_list_concat_map:
  "count_list (concat (map f xs)) y = (\<Sum>x\<leftarrow>xs. count_list (f x) y)"
  by (induction xs) simp_all

lemma count_naming_offences:
  "count_list (naming_offences pfx x) obj =
     (if x = obj
      then of_bool (length (leaf_tokens obj) \<notin> {3, 4}) + of_bool (hd (leaf_tokens obj) \<noteq> pfx)
      else 0)"
  by (cases "length (leaf_tokens x) \<in> {3, 4}"; cases "hd (leaf_tokens x) = pfx"; cases "x = obj")
     (simp_all add: naming_offences_def)

lemma sum_list_if_eq:
  "(\<Sum>x\<leftarrow>xs. if x = y then (k::nat) else 0) = count_list xs y * k"
  by (induction xs) simp_all

lemma lamina_loop_eq:
  "lamina_loop w xs acc out =
     (acc @ filter (\<lambda>m. truthy (polyInfo_laminaFaces w m)) xs,
      out\<lparr>trace := trace out @ map (\<lambda>m. Asked (PolyInfoLamina m)) xs\<rparr>)"
  by (induction xs arbitrary: acc out) (simp_all add: Let_def emit_def)


lemma uvs_loop_fail:
  "\<forall>x\<in>set pre. polyEvaluate_uv w x \<noteq> 0 \<Longrightarrow> polyEvaluate_uv w a = 0 \<Longrightarrow>
   uvs_loop w (pre @ a # post) out =
     (Inl (PublishError (NoUVs a)),
      out\<lparr>trace := trace out @ map (\<lambda>m. Asked (PolyEvaluateUV m)) (pre @ [a])\<rparr>)"
  by (induction pre arbitrary: out) (simp_all add: Let_def emit_def)

lemma uvs_loop_Inr:
  "fst (uvs_loop w xs out) = Inr () \<longleftrightarrow> (\<forall>x\<in>set xs. polyEvaluate_uv w x \<noteq> 0)"
  by (induction xs arbitrary: out) (simp_all add: Let_def)

subsection \<open>Floats\<close>

lemma bit_length_0: "bit_length 0 = 0"
  by (simp add: bit_length.simps [of 0])

lemma bit_length_le: "bit_length n \<le> b \<longleftrightarrow> n < 2 ^ b"
proof (induction b arbitrary: n)
  case 0
  show ?case by (simp add: bit_length.simps [of n])
next
  case (Suc b)
  show ?case
  proof (cases "n = 0")
    case True
    then show ?thesis by (simp add: bit_length_0)
  next
    case False
    have "bit_length n \<le> Suc b \<longleftrightarrow> bit_length (n div 2) \<le> b"
      using False by (simp add: bit_length.simps [of n])
    also have "\<dots> \<longleftrightarrow> n div 2 < 2 ^ b" by (rule Suc.IH)
    also have "\<dots> \<longleftrightarrow> n < 2 ^ Suc b" by auto
    finally show ?thesis .
  qed
qed

lemma bit_length_lower: "0 < n \<Longrightarrow> 2 ^ (bit_length n - 1) \<le> n"
proof -
  assume "0 < n"
  then have pos: "0 < bit_length n" by (simp add: bit_length.simps [of n])
  have "\<not> bit_length n \<le> bit_length n - 1" using pos by simp
  then have "\<not> n < 2 ^ (bit_length n - 1)"
    using bit_length_le [of n "bit_length n - 1"] by blast
  then show ?thesis by (rule leI)
qed

lemma pow2_shift: "k \<le> e \<Longrightarrow> (2::real) ^ nat (e - k) * 2 powi k = 2 powi e"
proof -
  assume "k \<le> e"
  then have "(2::real) ^ nat (e - k) = 2 powi (e - k)" by (simp add: power_int_nonneg_exp)
  then show ?thesis by (simp add: power_int_add [symmetric])
qed

lemma fgt_iff: "fgt a b \<longleftrightarrow> float_value a > float_value b"
proof (cases a, cases b)
  fix ma ea mb eb
  assume a: "a = Float ma ea" and b: "b = Float mb eb"
  define k where "k = min ea eb"
  have p: "(0::real) < 2 powi k" by simp
  have "fgt a b \<longleftrightarrow> (of_int (mb * 2 ^ nat (eb - k)) :: real) < of_int (ma * 2 ^ nat (ea - k))"
    unfolding fgt_def a b k_def by (simp add: Let_def del: of_int_mult of_int_power)
  also have "\<dots> \<longleftrightarrow> of_int (mb * 2 ^ nat (eb - k)) * 2 powi k < of_int (ma * 2 ^ nat (ea - k)) * (2::real) powi k"
    using p by simp
  also have "of_int (mb * 2 ^ nat (eb - k)) * 2 powi k = of_int mb * (2::real) powi eb"
    using pow2_shift [of k eb] by (simp add: k_def mult.assoc)
  also have "of_int (ma * 2 ^ nat (ea - k)) * 2 powi k = of_int ma * (2::real) powi ea"
    using pow2_shift [of k ea] by (simp add: k_def mult.assoc)
  finally show ?thesis by (simp add: float_value_def a b)
qed

lemma float_value_fabs: "float_value (fabs a) = \<bar>float_value a\<bar>"
  by (cases a) (simp add: fabs_def float_value_def abs_mult)


lemma float_value_literals:
  "float_value float_0_001 = tolerance" "float_value float_1_0 = 1"
  by (simp_all add: float_value_def float_0_001_def float_1_0_def tolerance_def
      power_int_minus field_simps)

lemma fround_exact: "\<bar>M\<bar> < 2 ^ 53 \<Longrightarrow> fround M k = Float M k"
proof -
  assume "\<bar>M\<bar> < 2 ^ 53"
  then have "nat \<bar>M\<bar> < 2 ^ 53" by (simp add: nat_less_iff)
  then have "bit_length (nat \<bar>M\<bar>) \<le> 53" by (simp only: bit_length_le)
  then show ?thesis by (simp add: fround_def Let_def)
qed

lemma shift_round_half:
  assumes "2 * 2 ^ s \<le> a"
  shows "a \<le> 2 * (shift_round a s * 2 ^ s)"
proof -
  define X where "X = a div 2 ^ s * 2 ^ s"
  define Y where "Y = a mod 2 ^ s"
  define P where "P = (2::nat) ^ s"
  have d: "a = X + Y" by (simp only: X_def Y_def div_mult_mod_eq)
  have y: "Y < P" by (simp add: Y_def P_def)
  have big: "2 * P \<le> a" using assms by (simp add: P_def)
  have "a \<le> 2 * X" using d y big by linarith
  moreover have "a div 2 ^ s \<le> shift_round a s"
    by (simp add: shift_round_def Let_def)
  then have "X \<le> shift_round a s * 2 ^ s"
    unfolding X_def by (rule mult_le_mono1)
  ultimately show ?thesis by linarith
qed

lemma fround_half:
  "\<bar>of_int M * 2 powi k\<bar> \<le> 2 * \<bar>float_value (fround M k)\<bar>"
proof (cases "bit_length (nat \<bar>M\<bar>) \<le> 53")
  case True
  then show ?thesis by (simp add: fround_def Let_def float_value_def)
next
  case False
  define a where "a = nat \<bar>M\<bar>"
  define s where "s = bit_length a - 53"
  have n: "53 < bit_length a" using False by (simp add: a_def)
  then have pos: "0 < a" by (cases "a = 0") (simp_all add: bit_length_0)
  have "(2::nat) ^ (bit_length a - 1) \<le> a" using pos by (rule bit_length_lower)
  moreover have "bit_length a - 1 = Suc s + 51" using n by (simp add: s_def)
  ultimately have "(2::nat) ^ (Suc s + 51) \<le> a" by simp
  moreover have "(2::nat) * 2 ^ s \<le> 2 ^ (Suc s + 51)"
    by (simp add: power_add)
  ultimately have "2 * 2 ^ s \<le> a" by linarith
  then have h: "a \<le> 2 * (shift_round a s * 2 ^ s)" by (rule shift_round_half)
  have fr: "fround M k = Float (sgn M * int (shift_round a s)) (k + int s)"
    using False by (simp add: fround_def Let_def a_def s_def)
  have "M \<noteq> 0" using pos by (auto simp: a_def)
  then have "\<bar>sgn M * int (shift_round a s)\<bar> = int (shift_round a s)"
    by (simp add: abs_mult abs_sgn_eq)
  then have "\<bar>of_int (sgn M * int (shift_round a s)) :: real\<bar> = real (shift_round a s)"
    by (metis of_int_abs of_int_of_nat_eq)
  then have "\<bar>float_value (fround M k)\<bar> = real (shift_round a s) * 2 powi (k + int s)"
    by (simp add: fr float_value_def abs_mult power_int_abs del: of_int_mult of_int_of_nat_eq)
  also have "\<dots> = real (shift_round a s * 2 ^ s) * 2 powi k"
    by (simp add: power_int_add)
  finally have v: "\<bar>float_value (fround M k)\<bar> = real (shift_round a s * 2 ^ s) * 2 powi k" .
  have "\<bar>of_int M * (2::real) powi k\<bar> = real a * 2 powi k"
    by (simp add: abs_mult a_def)
  also have "\<dots> \<le> real (2 * (shift_round a s * 2 ^ s)) * 2 powi k"
    using h by (intro mult_right_mono) (simp_all only: of_nat_le_iff zero_le_power_int zero_le_numeral)
  also have "\<dots> = 2 * \<bar>float_value (fround M k)\<bar>"
    by (simp add: v)
  finally show ?thesis .
qed


lemma tolerance_bounds: "0 < tolerance" "tolerance < 1 / 4"
  by (simp_all add: tolerance_def)

lemma fsub_one:
  "fsub (Float m e) float_1_0 = fround (m * 2 ^ nat (e - min e 0) - 2 ^ nat (- min e 0)) (min e 0)"
  by (simp add: fsub_def float_1_0_def Let_def)

lemma fsub_one_exact_value:
  "of_int (m * 2 ^ nat (e - min e 0) - 2 ^ nat (- min e 0)) * 2 powi (min e 0) =
     float_value (Float m e) - 1"
proof -
  have a: "(2::real) ^ nat (e - min e 0) * 2 powi (min e 0) = 2 powi e"
    by (rule pow2_shift) simp
  have b: "(2::real) ^ nat (0 - min e 0) * 2 powi (min e 0) = 2 powi 0"
    by (rule pow2_shift) simp
  have "of_int (m * 2 ^ nat (e - min e 0) - 2 ^ nat (- min e 0)) * 2 powi (min e 0) =
        of_int m * ((2::real) ^ nat (e - min e 0) * 2 powi (min e 0)) -
        (2::real) ^ nat (0 - min e 0) * 2 powi (min e 0)"
    by (simp add: algebra_simps)
  then show ?thesis
    unfolding a b by (simp add: float_value_def)
qed

lemma fsub_one_near:
  assumes m: "\<bar>m\<bar> < 2 ^ 53"
    and lo: "1 / 2 \<le> float_value (Float m e)" and hi: "float_value (Float m e) \<le> 2"
  shows "\<bar>m * 2 ^ nat (e - min e 0) - 2 ^ nat (- min e 0)\<bar> < 2 ^ 53"
proof (cases "0 \<le> e")
  case True
  then have k: "min e 0 = 0" by simp
  have v: "float_value (Float m e) = of_int (m * 2 ^ nat e)"
    using True by (simp add: float_value_def power_int_nonneg_exp)
  have "(1::real) / 2 \<le> of_int (m * 2 ^ nat e)" using lo v by simp
  then have "(0::real) < of_int (m * 2 ^ nat e)" by linarith
  then have l: "0 < m * 2 ^ nat e" by (simp only: of_int_0_less_iff)
  have "of_int (m * 2 ^ nat e) \<le> (of_int 2 :: real)" using hi v by simp
  then have h: "m * 2 ^ nat e \<le> 2" by (simp only: of_int_le_iff)
  show ?thesis using l h by (simp add: k)
next
  case False
  then have k: "min e 0 = e" by simp
  define P :: int where "P = 2 ^ nat (- e)"
  have Ppos: "0 < P" by (simp add: P_def)
  have pw: "(2::real) powi e = 1 / of_int P"
    using False by (simp add: P_def power_int_def field_simps)
  have "(1::real) / 2 \<le> of_int m / of_int P"
    using lo by (simp add: float_value_def pw)
  then have "(of_int P :: real) \<le> of_int (2 * m)"
    using Ppos by (simp add: field_simps)
  then have p2: "P \<le> 2 * m" by (simp only: of_int_le_iff)
  have "m * 2 ^ nat (e - min e 0) - 2 ^ nat (- min e 0) = m - P"
    by (simp add: k P_def)
  moreover have "\<bar>m - P\<bar> < 2 ^ 53"
    using m p2 Ppos by linarith
  ultimately show ?thesis by simp
qed

lemma scale_test_iff:
  assumes "is_double s"
  shows "fgt (fabs (fsub s float_1_0)) float_0_001 \<longleftrightarrow> \<bar>float_value s - 1\<bar> > tolerance"
proof (cases s)
  case (Float m e)
  define M where "M = m * 2 ^ nat (e - min e 0) - 2 ^ nat (- min e 0)"
  define k where "k = min e 0"
  have m: "\<bar>m\<bar> < 2 ^ 53" using assms Float by (simp add: is_double_def)
  have fs: "fsub s float_1_0 = fround M k"
    by (simp add: Float fsub_one M_def k_def)
  have x: "of_int M * 2 powi k = float_value s - 1"
    unfolding M_def k_def Float by (rule fsub_one_exact_value)
  have test: "fgt (fabs (fsub s float_1_0)) float_0_001 \<longleftrightarrow>
              \<bar>float_value (fround M k)\<bar> > tolerance"
    by (simp add: fgt_iff float_value_fabs float_value_literals fs)
  show ?thesis
  proof (cases "1 / 2 \<le> float_value s \<and> float_value s \<le> 2")
    case True
    then have "\<bar>M\<bar> < 2 ^ 53"
      unfolding M_def Float using m by (intro fsub_one_near) simp_all
    then have "fround M k = Float M k" by (rule fround_exact)
    then have "float_value (fround M k) = float_value s - 1"
      using x by (simp add: float_value_def)
    then show ?thesis by (simp add: test)
  next
    case False
    then have far: "1 / 2 < \<bar>float_value s - 1\<bar>" by linarith
    have "\<bar>float_value s - 1\<bar> \<le> 2 * \<bar>float_value (fround M k)\<bar>"
      using fround_half [of M k] by (simp only: x)
    with far have "1 / 4 < \<bar>float_value (fround M k)\<bar>" by linarith
    then have "tolerance < \<bar>float_value (fround M k)\<bar>"
      using tolerance_bounds by linarith
    moreover have "tolerance < \<bar>float_value s - 1\<bar>"
      using far tolerance_bounds by linarith
    ultimately show ?thesis by (simp add: test)
  qed
qed

lemma abs_test_iff:
  "fgt (fabs t) float_0_001 \<longleftrightarrow> \<bar>float_value t - 0\<bar> > tolerance"
  by (simp add: fgt_iff float_value_fabs float_value_literals)

lemma transforms_step:
  assumes "doubles (getAttr w (obj @ ''.scale''))"
  shows "transforms_loop w (obj # rest) acc out =
     transforms_loop w rest (acc @ transform_flag w obj)
       (out\<lparr>trace := trace out @ transform_queries w obj\<rparr>)"
proof -
  obtain t0 t1 t2 where t: "getAttr w (obj @ ''.translate'') = (t0, t1, t2)"
    using prod_cases3 by blast
  obtain r0 r1 r2 where r: "getAttr w (obj @ ''.rotate'') = (r0, r1, r2)"
    using prod_cases3 by blast
  obtain s0 s1 s2 where s: "getAttr w (obj @ ''.scale'') = (s0, s1, s2)"
    using prod_cases3 by blast
  have d: "is_double s0" "is_double s1" "is_double s2"
    using assms by (simp_all add: s doubles_def)
  have T: "(fgt (fabs t0) float_0_001 \<or> fgt (fabs t1) float_0_001 \<or> fgt (fabs t2) float_0_001)
           \<longleftrightarrow> \<not> in_tolerance 0 (t0, t1, t2)"
    by (simp only: abs_test_iff in_tolerance_def prod.case de_Morgan_conj not_le)
  have R: "(fgt (fabs r0) float_0_001 \<or> fgt (fabs r1) float_0_001 \<or> fgt (fabs r2) float_0_001)
           \<longleftrightarrow> \<not> in_tolerance 0 (r0, r1, r2)"
    by (simp only: abs_test_iff in_tolerance_def prod.case de_Morgan_conj not_le)
  have S: "(fgt (fabs (fsub s0 float_1_0)) float_0_001 \<or>
            fgt (fabs (fsub s1 float_1_0)) float_0_001 \<or>
            fgt (fabs (fsub s2 float_1_0)) float_0_001)
           \<longleftrightarrow> \<not> in_tolerance 1 (s0, s1, s2)"
    by (simp only: scale_test_iff [OF d(1)] scale_test_iff [OF d(2)] scale_test_iff [OF d(3)]
        in_tolerance_def prod.case de_Morgan_conj not_le)
  show ?thesis
    by (simp only: transforms_loop.simps Let_def t r s prod.case T R S)
       (simp add: emit_def transform_flag_def transform_queries_def channels_read_def
          first_bad_channel_def t r s)
qed

lemma transforms_loop_eq:
  assumes "\<forall>obj\<in>set xs. doubles (getAttr w (obj @ ''.scale''))"
  shows "transforms_loop w xs acc out =
     (acc @ concat (map (transform_flag w) xs),
      out\<lparr>trace := trace out @ concat (map (transform_queries w) xs)\<rparr>)"
  using assms
proof (induction xs arbitrary: acc out)
  case Nil
  show ?case by simp
next
  case (Cons obj rest)
  have d: "doubles (getAttr w (obj @ ''.scale''))" using Cons.prems by simp
  have r: "\<forall>obj\<in>set rest. doubles (getAttr w (obj @ ''.scale''))" using Cons.prems by simp
  show ?case unfolding transforms_step [OF d] Cons.IH [OF r] by simp
qed

subsection \<open>The naming check\<close>

text \<open>
  Claim C3. Once the scene name has passed rule 1, the naming check goes through the whole
  selection and collects, object by object, the object once if the token count of its leaf
  name is not 3 or 4 and once more if its first token is not the prefix. So an object occurs
  in the offender list as often as it occurs in the selection, times the number of the two
  conditions it fails: twice for each occurrence when it fails both. The check then fails
  once, with the whole list, if the list is not empty, and succeeds if it is.
\<close>

theorem naming_check_offenders:
  assumes "scene self = Some sc" and "length (split_on CHR ''_'' sc) \<in> {3, 4}"
  shows "naming_loop pfx (sel self) [] = concat (map (naming_offences pfx) (sel self)) \<and>
         (\<forall>obj. count_list (naming_loop pfx (sel self) []) obj =
            count_list (sel self) obj *
              (of_bool (length (leaf_tokens obj) \<notin> {3, 4}) +
               of_bool (hd (leaf_tokens obj) \<noteq> pfx))) \<and>
         MyPublisher_verify_assets pfx w self out =
           (if naming_loop pfx (sel self) [] = [] then Inr True
            else Inl (PublishError (NamingStandard (naming_loop pfx (sel self) []))), self, out)"
proof (intro conjI allI)
  show "naming_loop pfx (sel self) [] = concat (map (naming_offences pfx) (sel self))"
    by (simp add: naming_loop_eq)
next
  fix obj
  show "count_list (naming_loop pfx (sel self) []) obj =
          count_list (sel self) obj *
            (of_bool (length (leaf_tokens obj) \<notin> {3, 4}) +
             of_bool (hd (leaf_tokens obj) \<noteq> pfx))"
    unfolding naming_loop_eq append_Nil count_list_concat_map
    by (simp only: map_map o_def count_naming_offences sum_list_if_eq)
next
  show "MyPublisher_verify_assets pfx w self out =
           (if naming_loop pfx (sel self) [] = [] then Inr True
            else Inl (PublishError (NamingStandard (naming_loop pfx (sel self) []))), self, out)"
    using assms by (simp add: MyPublisher_verify_assets_def Let_def)
qed

text \<open>
  On a selection of three objects: the first has two tokens and the wrong prefix and is
  listed twice, the second is right, the third has the wrong prefix only.
\<close>

theorem naming_check_offenders_witness:
  "MyPublisher_verify_assets ''geo'' example_world
     ((init ModelPublisher [''|grp|hero_body'', ''geo_hero_body'', ''mesh_hero_body''] ''api'' None)
        \<lparr>scene := Some ''show_seq010_model_v002.ma''\<rparr>) example_out =
   (Inl (PublishError
      (NamingStandard [''|grp|hero_body'', ''|grp|hero_body'', ''mesh_hero_body''])),
    (init ModelPublisher [''|grp|hero_body'', ''geo_hero_body'', ''mesh_hero_body''] ''api'' None)
        \<lparr>scene := Some ''show_seq010_model_v002.ma''\<rparr>, example_out)"
  using naming_check_offenders
    [of "(init ModelPublisher [''|grp|hero_body'', ''geo_hero_body'', ''mesh_hero_body''] ''api'' None)
        \<lparr>scene := Some ''show_seq010_model_v002.ma''\<rparr>" "''show_seq010_model_v002.ma''" "''geo''"
        example_world example_out]
  by (simp add: init_def naming_offences_def leaf_tokens_def)

subsection \<open>The geometry checks\<close>

text \<open>
  Claim C8. The topology check asks Maya for the n-sided faces of the selection's meshes
  first. If there are any it fails at once with them, and \<^verbatim>\<open>polyInfo\<close> is not called on
  any mesh. If there are none it calls \<^verbatim>\<open>polyInfo\<close> on every mesh, in order, collects
  the meshes with lamina faces, and fails once with all of them if there is one, and succeeds
  otherwise.
\<close>

theorem check_topology_ngons_first:
  "(ngon_selection w (ls_meshes w (sel self)) \<noteq> [] \<longrightarrow>
      check_topology w self out =
        (Inl (PublishError (Ngons (ngon_selection w (ls_meshes w (sel self))))),
         out\<lparr>trace := trace out @
           [Select (sel self), Asked (LsMeshes (sel self)), Select (ls_meshes w (sel self)),
            ConstraintNgons, Asked LsSelection, ConstraintOff]\<rparr>)) \<and>
   (ngon_selection w (ls_meshes w (sel self)) = [] \<longrightarrow>
      check_topology w self out =
        (if filter (\<lambda>m. truthy (polyInfo_laminaFaces w m)) (ls_meshes w (sel self)) = []
         then Inr ()
         else Inl (PublishError (OverlappingFaces
                (filter (\<lambda>m. truthy (polyInfo_laminaFaces w m)) (ls_meshes w (sel self))))),
         out\<lparr>trace := trace out @
           [Select (sel self), Asked (LsMeshes (sel self)), Select (ls_meshes w (sel self)),
            ConstraintNgons, Asked LsSelection, ConstraintOff] @
           map (\<lambda>m. Asked (PolyInfoLamina m)) (ls_meshes w (sel self))\<rparr>))"
  by (simp add: check_topology_def Let_def emit_def lamina_loop_eq)

text \<open>
  A scene with an n-gon and a lamina face: only the n-gon is reported, and no mesh is asked
  for its lamina faces. The same scene without the n-gon: both meshes are asked, the one
  with the lamina face is reported.
\<close>

theorem check_topology_ngons_first_witness:
  "check_topology
     (example_world\<lparr>ngon_selection := (\<lambda>meshes. [''aShape.f[3]'']),
                    polyInfo_laminaFaces := (\<lambda>mesh. Some [''FACE 1''])\<rparr>)
     (init ModelPublisher [''a'', ''b''] ''api'' None) example_out =
     (Inl (PublishError (Ngons [''aShape.f[3]''])),
      \<lparr>trace = [Select [''a'', ''b''], Asked (LsMeshes [''a'', ''b'']),
                Select [''aShape'', ''bShape''], ConstraintNgons, Asked LsSelection,
                ConstraintOff],
       fs = Map.empty\<rparr>) \<and>
   check_topology
     (example_world\<lparr>polyInfo_laminaFaces :=
        (\<lambda>mesh. if mesh = ''bShape'' then Some [''FACE 1''] else None)\<rparr>)
     (init ModelPublisher [''a'', ''b''] ''api'' None) example_out =
     (Inl (PublishError (OverlappingFaces [''bShape''])),
      \<lparr>trace = [Select [''a'', ''b''], Asked (LsMeshes [''a'', ''b'']),
                Select [''aShape'', ''bShape''], ConstraintNgons, Asked LsSelection,
                ConstraintOff, Asked (PolyInfoLamina ''aShape''),
                Asked (PolyInfoLamina ''bShape'')],
       fs = Map.empty\<rparr>)"
  using check_topology_ngons_first
    [of "example_world\<lparr>ngon_selection := (\<lambda>meshes. [''aShape.f[3]'']),
                    polyInfo_laminaFaces := (\<lambda>mesh. Some [''FACE 1''])\<rparr>"
        "init ModelPublisher [''a'', ''b''] ''api'' None" example_out]
    check_topology_ngons_first
    [of "example_world\<lparr>polyInfo_laminaFaces :=
           (\<lambda>mesh. if mesh = ''bShape'' then Some [''FACE 1''] else None)\<rparr>"
        "init ModelPublisher [''a'', ''b''] ''api'' None" example_out]
  by (simp add: example_world_def example_out_def init_def truthy_def)

text \<open>
  Claim C6. The transform check reads, for every object in the order of the selection, its
  translate, rotate and scale in this order, up to and including the first one that is out
  of tolerance: in one of its three components further than the float \<^verbatim>\<open>0.001\<close> from 0
  for translate and rotate, from 1 for scale. The comparison is strict and, the values being
  doubles, it is the comparison of the exact numbers: the rounding of the float subtraction
  \<^verbatim>\<open>s - 1.0\<close> never changes which side of the tolerance a scale is on. For such an object
  the check records the object's name followed by the channel in brackets, and goes on with
  the next object. After the last object it fails once with all the records if there is
  one, and succeeds otherwise.
\<close>

theorem check_transforms_aggregates:
  assumes "\<forall>obj\<in>set (sel self). doubles (getAttr w (obj @ ''.scale''))"
  shows "check_transforms w self out =
     (if concat (map (transform_flag w) (sel self)) = [] then Inr ()
      else Inl (PublishError (TransformsNotFrozen (concat (map (transform_flag w) (sel self))))),
      out\<lparr>trace := trace out @ concat (map (transform_queries w) (sel self))\<rparr>)"
  by (simp add: check_transforms_def transforms_loop_eq [OF assms])

text \<open>
  With the doubles that Python reads from the decimals: an object translated by \<^verbatim>\<open>0.0010\<close>
  and scaled by \<^verbatim>\<open>1.001\<close> (a double just below it) passes, and all its channels are
  read; an object translated by \<^verbatim>\<open>0.0011\<close> and rotated by 90 is recorded for its
  translation only, and neither its rotation nor its scale is read; the object after it is
  still checked, and recorded for its scale of \<^verbatim>\<open>0.999\<close>. The float subtraction gives
  \<^verbatim>\<open>0.999 - 1.0\<close> exactly, and rounds a difference of 54 bits to the nearest double, a
  tie to the even mantissa.
\<close>

theorem check_transforms_aggregates_witness:
  "check_transforms
     (example_world\<lparr>getAttr := (\<lambda>name.
        if name = ''a.translate'' then (Float 0 0, Float 0 0, Float 1152921504606847 (- 60))
        else if name = ''a.scale'' then (Float 1 0, Float 2254051613498933 (- 51), Float 1 0)
        else if name = ''b.translate''
          then (Float 0 0, Float 0 0, Float 5072854620270127 (- 62))
        else if name = ''b.rotate'' then (Float 90 0, Float 0 0, Float 0 0)
        else if name = ''c.scale'' then (Float 1 0, Float 8998192055486251 (- 53), Float 1 0)
        else if name = ''b.scale'' then (Float 1 0, Float 1 0, Float 1 0)
        else (Float 0 0, Float 0 0, Float 0 0))\<rparr>)
     (init ModelPublisher [''a'', ''b'', ''c''] ''api'' None) example_out =
     (Inl (PublishError (TransformsNotFrozen [''b (Translate)'', ''c (Scale)''])),
      \<lparr>trace = [Asked (GetAttr ''a.translate''), Asked (GetAttr ''a.rotate''),
                Asked (GetAttr ''a.scale''), Asked (GetAttr ''b.translate''),
                Asked (GetAttr ''c.translate''), Asked (GetAttr ''c.rotate''),
                Asked (GetAttr ''c.scale'')],
       fs = Map.empty\<rparr>) \<and>
   fsub (Float 8998192055486251 (- 53)) float_1_0 = Float (- 9007199254741) (- 53) \<and>
   fsub (Float 4503599627370497 1) float_1_0 = Float 4503599627370496 1 \<and>
   fsub (Float 1 54) float_1_0 = Float 9007199254740992 1 \<and>
   fsub (Float 4503599627370497 2) float_1_0 = Float 4503599627370497 2 \<and>
   fgt (fabs (Float (- 9007199254741) (- 53))) float_0_001 \<and>
   \<not> fgt (fabs (Float (- 1152921504606847) (- 60))) float_0_001"
proof -
  have sub: "fsub (Float 8998192055486251 (- 53)) float_1_0 = Float (- 9007199254741) (- 53)"
    "fsub (Float 4503599627370497 1) float_1_0 = Float 4503599627370496 1"
    "fsub (Float 1 54) float_1_0 = Float 9007199254740992 1"
    "fsub (Float 4503599627370497 2) float_1_0 = Float 4503599627370497 2"
    by (simp_all add: fsub_def float_1_0_def fround_def shift_round_def Let_def bit_length.simps)
  have cmp: "fgt (fabs (Float (- 9007199254741) (- 53))) float_0_001"
    "\<not> fgt (fabs (Float (- 1152921504606847) (- 60))) float_0_001"
    by (simp_all add: fgt_def fabs_def float_0_001_def)
  have "check_transforms
     (example_world\<lparr>getAttr := (\<lambda>name.
        if name = ''a.translate'' then (Float 0 0, Float 0 0, Float 1152921504606847 (- 60))
        else if name = ''a.scale'' then (Float 1 0, Float 2254051613498933 (- 51), Float 1 0)
        else if name = ''b.translate''
          then (Float 0 0, Float 0 0, Float 5072854620270127 (- 62))
        else if name = ''b.rotate'' then (Float 90 0, Float 0 0, Float 0 0)
        else if name = ''c.scale'' then (Float 1 0, Float 8998192055486251 (- 53), Float 1 0)
        else if name = ''b.scale'' then (Float 1 0, Float 1 0, Float 1 0)
        else (Float 0 0, Float 0 0, Float 0 0))\<rparr>)
     (init ModelPublisher [''a'', ''b'', ''c''] ''api'' None) example_out =
     (Inl (PublishError (TransformsNotFrozen [''b (Translate)'', ''c (Scale)''])),
      \<lparr>trace = [Asked (GetAttr ''a.translate''), Asked (GetAttr ''a.rotate''),
                Asked (GetAttr ''a.scale''), Asked (GetAttr ''b.translate''),
                Asked (GetAttr ''c.translate''), Asked (GetAttr ''c.rotate''),
                Asked (GetAttr ''c.scale'')],
       fs = Map.empty\<rparr>)"
    using check_transforms_aggregates
      [of "init ModelPublisher [''a'', ''b'', ''c''] ''api'' None"
        "example_world\<lparr>getAttr := (\<lambda>name.
        if name = ''a.translate'' then (Float 0 0, Float 0 0, Float 1152921504606847 (- 60))
        else if name = ''a.scale'' then (Float 1 0, Float 2254051613498933 (- 51), Float 1 0)
        else if name = ''b.translate''
          then (Float 0 0, Float 0 0, Float 5072854620270127 (- 62))
        else if name = ''b.rotate'' then (Float 90 0, Float 0 0, Float 0 0)
        else if name = ''c.scale'' then (Float 1 0, Float 8998192055486251 (- 53), Float 1 0)
        else if name = ''b.scale'' then (Float 1 0, Float 1 0, Float 1 0)
        else (Float 0 0, Float 0 0, Float 0 0))\<rparr>" example_out]
    by (simp add: example_world_def example_out_def init_def transform_flag_def
        transform_queries_def channels_read_def first_bad_channel_def in_tolerance_def
        doubles_def is_double_def float_value_def tolerance_def power_int_minus)
  with sub cmp show ?thesis by simp
qed




text \<open>
  Claim C5. The UV check goes through the selection in order and fails at the first object
  whose UV count is zero, naming that object alone: the objects before it have been asked
  for their UVs, it has been asked, and no object after it is. The check succeeds exactly
  when every object of the selection has a UV count that is not zero.
\<close>

theorem check_uvs_first_offender:
  "(\<forall>pre a post.
      sel self = pre @ a # post \<and> (\<forall>x\<in>set pre. polyEvaluate_uv w x \<noteq> 0) \<and>
      polyEvaluate_uv w a = 0 \<longrightarrow>
      check_uvs w self out =
        (Inl (PublishError (NoUVs a)),
         out\<lparr>trace := trace out @ map (\<lambda>obj. Asked (PolyEvaluateUV obj)) (pre @ [a])\<rparr>)) \<and>
   (fst (check_uvs w self out) = Inr () \<longleftrightarrow> (\<forall>x\<in>set (sel self). polyEvaluate_uv w x \<noteq> 0))"
  by (simp add: check_uvs_def uvs_loop_fail uvs_loop_Inr)

text \<open>With A (no UVs) before B (five UVs), the check names A and never asks for B's UVs.\<close>

theorem check_uvs_first_offender_witness:
  "check_uvs (example_world\<lparr>polyEvaluate_uv := (\<lambda>obj. if obj = ''A'' then 0 else 5)\<rparr>)
     (init ModelPublisher [''A'', ''B''] ''api'' None) example_out =
     (Inl (PublishError (NoUVs ''A'')),
      \<lparr>trace = [Asked (PolyEvaluateUV ''A'')], fs = Map.empty\<rparr>)"
  using check_uvs_first_offender
    [of "init ModelPublisher [''A'', ''B''] ''api'' None"
        "example_world\<lparr>polyEvaluate_uv := (\<lambda>obj. if obj = ''A'' then 0 else 5)\<rparr>" example_out,
     THEN conjunct1, rule_format, of "[]" "''A''" "[''B'']"]
  by (simp add: example_world_def example_out_def init_def)

subsection \<open>The modeling Verify stage and the prefix\<close>

text \<open>
  Claim C4. The constructor takes a prefix and stores it, \<^verbatim>\<open>main\<close> hands the stored prefix
  to the check, and the base check compares with the prefix it is handed. The modeling
  Verify stage, under the comment \<^verbatim>\<open>Stores the name prefix sent.\<close>, stores the literal
  \<^verbatim>\<open>geo\<close> instead. At a publisher constructed with the prefix \<^verbatim>\<open>mdl\<close> and the
  object \<^verbatim>\<open>mdl_hero_body\<close> selected, the stored prefix is \<^verbatim>\<open>mdl\<close>, the naming loop
  run with it finds no offender and the base check called with it succeeds; the modeling
  Verify stage reports the object as a naming offender and leaves \<^verbatim>\<open>geo\<close> as the
  publisher's prefix.
\<close>

theorem model_verify_ignores_configured_prefix:
  "prefix (init ModelPublisher [''mdl_hero_body''] ''api'' (Some ''mdl'')) = ''mdl'' \<and>
   naming_loop ''mdl'' [''mdl_hero_body''] [] = [] \<and>
   fst (MyPublisher_verify_assets ''mdl'' example_world
          (fst (snd (collect_assets example_world
             (init ModelPublisher [''mdl_hero_body''] ''api'' (Some ''mdl'')) example_out)))
          (snd (snd (collect_assets example_world
             (init ModelPublisher [''mdl_hero_body''] ''api'' (Some ''mdl'')) example_out)))) =
     Inr True \<and>
   fst (ModelPublisher_verify_assets example_world
          (fst (snd (collect_assets example_world
             (init ModelPublisher [''mdl_hero_body''] ''api'' (Some ''mdl'')) example_out)))
          (snd (snd (collect_assets example_world
             (init ModelPublisher [''mdl_hero_body''] ''api'' (Some ''mdl'')) example_out)))) =
     Inl (PublishError (NamingStandard [''mdl_hero_body''])) \<and>
   prefix (fst (snd (ModelPublisher_verify_assets example_world
          (fst (snd (collect_assets example_world
             (init ModelPublisher [''mdl_hero_body''] ''api'' (Some ''mdl'')) example_out)))
          (snd (snd (collect_assets example_world
             (init ModelPublisher [''mdl_hero_body''] ''api'' (Some ''mdl'')) example_out)))))) =
     ''geo''"
  by (simp add: collect_assets_def init_def example_world_def example_out_def Let_def emit_def
      ModelPublisher_verify_assets_def MyPublisher_verify_assets_def)

subsection \<open>The inherited main\<close>

lemma bind_args_too_many: "bind_args [] (a # rest) kw = Inl TypeError"
  by simp

text \<open>
  Claim C2. On a modeling publisher with a selection that is not empty, the inherited
  \<^verbatim>\<open>main\<close> collects and then raises \<^verbatim>\<open>TypeError\<close> at its call of \<^verbatim>\<open>verify_assets\<close>
  with the prefix, which the modeling publisher's method has no parameter for. Nothing of
  Verify, Extract or Implement has happened: the trace holds the collection and the report
  of the error, the file system is as it was, and of the publisher only the scene is set.
  The call of \<^verbatim>\<open>extract_assets\<close> without argument, which \<^verbatim>\<open>main\<close> would make next,
  raises \<^verbatim>\<open>TypeError\<close> as well, before anything is extracted. The calls that the
  window makes instead, each stage by itself with the arguments its method takes, do reach
  the modeling publisher's three methods.
\<close>

theorem main_on_model_publisher_raises:
  assumes "cls self = ModelPublisher" and "sel self \<noteq> []"
  shows "main w self out =
           (Inl TypeError,
            self\<lparr>scene := Some (last (split_on CHR ''/'' (file_exn w)))\<rparr>,
            out\<lparr>trace := trace out @
              [Print '' -- Starting publsihing--'', Asked FileExn,
               Print (''-- Collecting Done '' @ last (split_on CHR ''/'' (file_exn w)) @ ''--''),
               PrintError ''Critical Error: '' TypeError,
               Warning ''Critical Error: '' TypeError]\<rparr>) \<and>
         call_extract_assets [] [] w self out = (Inl TypeError, self, out) \<and>
         call_verify_assets [] [] w self out = ModelPublisher_verify_assets w self out \<and>
         (\<forall>output_format.
            call_extract_assets [] [(''output'', output_format)] w self out =
              ModelPublisher_extract_assets output_format w self out) \<and>
         call_implement_assets [] [] w self out = ModelPublisher_implement_assets [] w self out"
proof (intro conjI)
  show "main w self out =
           (Inl TypeError,
            self\<lparr>scene := Some (last (split_on CHR ''/'' (file_exn w)))\<rparr>,
            out\<lparr>trace := trace out @
              [Print '' -- Starting publsihing--'', Asked FileExn,
               Print (''-- Collecting Done '' @ last (split_on CHR ''/'' (file_exn w)) @ ''--''),
               PrintError ''Critical Error: '' TypeError,
               Warning ''Critical Error: '' TypeError]\<rparr>)"
    using assms
    by (simp add: main_def main_try_def collect_assets_def call_verify_assets_def Let_def
        emit_def)
next
  show "call_extract_assets [] [] w self out = (Inl TypeError, self, out)"
    using assms by (simp add: call_extract_assets_def)
next
  show "call_verify_assets [] [] w self out = ModelPublisher_verify_assets w self out"
    using assms by (simp add: call_verify_assets_def)
next
  show "\<forall>output_format.
          call_extract_assets [] [(''output'', output_format)] w self out =
            ModelPublisher_extract_assets output_format w self out"
    using assms by (simp add: call_extract_assets_def)
next
  show "call_implement_assets [] [] w self out = ModelPublisher_implement_assets [] w self out"
    using assms by (simp add: call_implement_assets_def)
qed

theorem main_on_model_publisher_raises_witness:
  "fst (main example_world (init ModelPublisher [''geo_hero_body''] ''api'' None) example_out) =
     Inl TypeError \<and>
   fs (snd (snd (main example_world (init ModelPublisher [''geo_hero_body''] ''api'' None)
     example_out))) = Map.empty"
  using main_on_model_publisher_raises
    [of "init ModelPublisher [''geo_hero_body''] ''api'' None" example_world example_out]
  by (simp add: init_def example_out_def)

subsection \<open>The clean scene after Extract\<close>

lemma example_extracted_eq:
  "example_extracted =
     (example_pub\<lparr>scene_name := Some ''show_seq010_model_v002'', version := Some ''v002'',
        obj_path :=
          ''/work/project/scenes/assets/show_seq010_model_v002/modeling/show_seq010_model_v002''\<rparr>,
      \<lparr>trace =
         [Print ''-Starting Export-'', Select [''geo_hero_body''], Asked FileSn,
          MakeDirs ''/work/project/scenes/assets/show_seq010_model_v002/modeling/'',
          ExportSelection
            ''/work/project/scenes/assets/show_seq010_model_v002/modeling/show_seq010_model_v002''
            ''OBJexport'',
          Print ''--Export done--''],
       fs = [(True, [''work'']) \<mapsto> Dir,
             (True, [''work'', ''project'']) \<mapsto> Dir,
             (True, [''work'', ''project'', ''scenes'']) \<mapsto> Dir,
             (True, [''work'', ''project'', ''scenes'', ''assets'']) \<mapsto> Dir,
             (True, [''work'', ''project'', ''scenes'', ''assets'', ''show_seq010_model_v002''])
               \<mapsto> Dir,
             (True, [''work'', ''project'', ''scenes'', ''assets'', ''show_seq010_model_v002'',
                     ''modeling'']) \<mapsto> Dir]\<rparr>)"
  by (simp add: example_extracted_def ModelPublisher_extract_assets_def example_pub_def init_def
      example_world_def example_out_def Let_def Path_def splitroot_def parents_def str_path_def
      basename_def rfind_def path_join_def makedirs_def resolve_def emit_def)

lemma implement_example:
  "fst (ModelPublisher_implement_assets [] example_world
     (fst example_extracted) (snd example_extracted)) = Inr ()"
  by (simp add: example_extracted_eq ModelPublisher_implement_assets_def Let_def
      discord_notification_def discord_notification_try_def emit_def csv_publisher_def
      with_suffix_def suffix_def rfind_def Path_def splitroot_def str_path_def open_write_def
      resolve_def example_world_def example_pub_def init_def)

lemma implement_example_sidecar:
  "fs (snd (snd (ModelPublisher_implement_assets [] example_world
     (fst example_extracted) (snd example_extracted))))
     (True, [''work'', ''project'', ''scenes'', ''assets'', ''show_seq010_model_v002'',
             ''modeling'', ''show_seq010_model_v002_metadata.json'']) \<noteq> None"
  by (simp add: example_extracted_eq ModelPublisher_implement_assets_def Let_def
      discord_notification_def discord_notification_try_def emit_def csv_publisher_def
      with_suffix_def suffix_def rfind_def Path_def splitroot_def str_path_def open_write_def
      resolve_def example_world_def example_pub_def init_def)

lemma example_with_suffix:
  "with_suffix (Path (obj_path (fst example_extracted))) [] =
     Inr (''/'', [''work'', ''project'', ''scenes'', ''assets'', ''show_seq010_model_v002'',
                 ''modeling'', ''show_seq010_model_v002''])"
  by (simp add: example_extracted_eq with_suffix_def suffix_def rfind_def Path_def
      splitroot_def Let_def)

subsection \<open>The notification\<close>

lemma discord_notification_try_cases:
  "discord_notification_try w bot_url msg out =
     (Inr (), out\<lparr>trace := trace out @ [Post bot_url msg, Print ''Discord notification sent.'']\<rparr>) \<or>
   (\<exists>e. discord_notification_try w bot_url msg out =
     (Inl (RequestException e), out\<lparr>trace := trace out @ [Post bot_url msg]\<rparr>) \<and>
     (\<forall>text. requests_post w bot_url msg = Inl text \<longrightarrow> e = TransportError text))"
  by (cases "requests_post w bot_url msg")
     (simp_all add: discord_notification_try_def Let_def emit_def)

lemma discord_notification_result:
  "\<exists>msg logged.
     discord_notification asset_name ver department bot_url w self out =
       (Inr msg, self\<lparr>user := Some (getuser w)\<rparr>,
        out\<lparr>trace := trace out @ [Post bot_url msg, logged]\<rparr>) \<and>
     (logged = Print ''Discord notification sent.'' \<or>
      (\<exists>e. logged = PrintError ''Discord notification failed: '' (RequestException e))) \<and>
     (\<forall>text. requests_post w bot_url msg = Inl text \<longrightarrow>
        logged = PrintError ''Discord notification failed: '' (RequestException (TransportError text)))"
proof -
  define msg where "msg =
    \<lparr>username = ''Pipeline Bot'', title = ''Asset Published Successfully.'',
     description =
       asset_name @ '' version: '' @ ver @ '' for '' @ department @ '' '' @
       [CHR 0x0A] @ replicate 36 CHR '' '' @
       ''has been successfully exported by '' @ getuser w @ ''.'',
     color = 5763719\<rparr>"
  from discord_notification_try_cases [of w bot_url msg out]
  show ?thesis
  proof (elim disjE exE conjE)
    assume ok: "discord_notification_try w bot_url msg out =
      (Inr (), out\<lparr>trace := trace out @ [Post bot_url msg, Print ''Discord notification sent.'']\<rparr>)"
    then have nofail: "\<forall>text. requests_post w bot_url msg \<noteq> Inl text"
      by (auto simp: discord_notification_try_def Let_def)
    show ?thesis
      apply (rule exI [of _ msg], rule exI [of _ "Print ''Discord notification sent.''"])
      using ok nofail by (simp add: discord_notification_def Let_def msg_def)
  next
    fix e
    assume bad: "discord_notification_try w bot_url msg out =
      (Inl (RequestException e), out\<lparr>trace := trace out @ [Post bot_url msg]\<rparr>)"
      and tx: "\<forall>text. requests_post w bot_url msg = Inl text \<longrightarrow> e = TransportError text"
    show ?thesis
      apply (rule exI [of _ msg],
             rule exI [of _ "PrintError ''Discord notification failed: '' (RequestException e)"])
      using bad tx by (simp add: discord_notification_def Let_def msg_def emit_def)
  qed
qed

lemma open_write_fs_only:
  assumes "fs out1 = fs out2"
  shows "fst (open_write name content out1) = fst (open_write name content out2) \<and>
         fs (snd (open_write name content out1)) = fs (snd (open_write name content out2))"
  using assms
  by (simp add: open_write_def Let_def emit_def split: prod.splits option.splits node.splits)

lemma open_write_success:
  assumes "fst (open_write name content out) = Inr ()"
  shows "snd (open_write name content out) =
           out\<lparr>trace := trace out @ [OpenWrite name],
               fs := (fs out)(resolve name \<mapsto> File content)\<rparr>"
  using assms
  by (auto simp: open_write_def Let_def emit_def
      split: prod.splits option.splits node.splits if_splits)

lemma csv_publisher_fs_only:
  assumes "fs out1 = fs out2"
  shows "fst (csv_publisher asset_data w self out1) = fst (csv_publisher asset_data w self out2) \<and>
         fst (snd (csv_publisher asset_data w self out1)) =
           fst (snd (csv_publisher asset_data w self out2)) \<and>
         fs (snd (snd (csv_publisher asset_data w self out1))) =
           fs (snd (snd (csv_publisher asset_data w self out2)))"
proof (cases "with_suffix (Path (obj_path self)) []")
  case (Inl e)
  then show ?thesis using assms by (simp add: csv_publisher_def Let_def)
next
  case (Inr stripped)
  obtain r1 o1 where a: "open_write (str_path stripped @ ''_metadata.json'')
      (json_dump asset_data) out1 = (r1, o1)"
    by (cases "open_write (str_path stripped @ ''_metadata.json'') (json_dump asset_data) out1") auto
  obtain r2 o2 where b: "open_write (str_path stripped @ ''_metadata.json'')
      (json_dump asset_data) out2 = (r2, o2)"
    by (cases "open_write (str_path stripped @ ''_metadata.json'') (json_dump asset_data) out2") auto
  from open_write_fs_only [OF assms, of "str_path stripped @ ''_metadata.json''"
      "json_dump asset_data"] a b
  have "r1 = r2" and "fs o1 = fs o2" by simp_all
  then show ?thesis
    by (cases r2) (simp_all add: csv_publisher_def Let_def Inr a b)
qed


lemma csv_publisher_world: "csv_publisher asset_data w self out = csv_publisher asset_data w' self out"
  by (simp add: csv_publisher_def)

lemma implement_normal_form:
  assumes "scene_name self = Some sn" and "version self = Some ver"
  shows "\<exists>msg logged.
     ModelPublisher_implement_assets descr w self out =
       (case csv_publisher
               (publish_record (upper (take 8 (hex (uuid4 (urandom16 w))))) (strftime (now w))
                  sn ver (obj_path self) (getuser w) descr)
               w (self\<lparr>user := Some (getuser w)\<rparr>)
               (out\<lparr>trace := trace out @
                  [Post (environ_PIPELINE_DISCORD_BOT w) msg, logged, Print ''csv printing'']\<rparr>) of
          (Inl e, self2, out3) \<Rightarrow> (Inl e, self2, out3)
        | (Inr d, self2, out3) \<Rightarrow> (Inr (), self2, emit (Print ''done csv'') out3)) \<and>
     (logged = Print ''Discord notification sent.'' \<or>
      (\<exists>e. logged = PrintError ''Discord notification failed: '' (RequestException e))) \<and>
     (\<forall>text. requests_post w (environ_PIPELINE_DISCORD_BOT w) msg = Inl text \<longrightarrow>
        logged = PrintError ''Discord notification failed: '' (RequestException (TransportError text)))"
proof -
  from discord_notification_result
    [of sn ver "''modeling''" "environ_PIPELINE_DISCORD_BOT w" w self out]
  obtain msg logged where
    d: "discord_notification sn ver ''modeling'' (environ_PIPELINE_DISCORD_BOT w) w self out =
          (Inr msg, self\<lparr>user := Some (getuser w)\<rparr>,
           out\<lparr>trace := trace out @ [Post (environ_PIPELINE_DISCORD_BOT w) msg, logged]\<rparr>)"
    and n: "logged = Print ''Discord notification sent.'' \<or>
            (\<exists>e. logged = PrintError ''Discord notification failed: '' (RequestException e))"
    and f: "\<forall>text. requests_post w (environ_PIPELINE_DISCORD_BOT w) msg = Inl text \<longrightarrow>
        logged = PrintError ''Discord notification failed: '' (RequestException (TransportError text))"
    by blast
  have "ModelPublisher_implement_assets descr w self out =
       (case csv_publisher
               (publish_record (upper (take 8 (hex (uuid4 (urandom16 w))))) (strftime (now w))
                  sn ver (obj_path self) (getuser w) descr)
               w (self\<lparr>user := Some (getuser w)\<rparr>)
               (out\<lparr>trace := trace out @
                  [Post (environ_PIPELINE_DISCORD_BOT w) msg, logged, Print ''csv printing'']\<rparr>) of
          (Inl e, self2, out3) \<Rightarrow> (Inl e, self2, out3)
        | (Inr d, self2, out3) \<Rightarrow> (Inr (), self2, emit (Print ''done csv'') out3))"
    using assms
    by (simp add: ModelPublisher_implement_assets_def Let_def d emit_def publish_record_def)
  with n f show ?thesis by blast
qed

lemma implement_outcome_fs_only:
  assumes "fs out1 = fs out2"
  shows "fst (case csv_publisher d w s out1 of
                (Inl e, self2, out3) \<Rightarrow> (Inl e, self2, out3)
              | (Inr d, self2, out3) \<Rightarrow> (Inr (), self2, emit (Print ''done csv'') out3)) =
         fst (case csv_publisher d w s out2 of
                (Inl e, self2, out3) \<Rightarrow> (Inl e, self2, out3)
              | (Inr d, self2, out3) \<Rightarrow> (Inr (), self2, emit (Print ''done csv'') out3)) \<and>
         fst (snd (case csv_publisher d w s out1 of
                (Inl e, self2, out3) \<Rightarrow> (Inl e, self2, out3)
              | (Inr d, self2, out3) \<Rightarrow> (Inr (), self2, emit (Print ''done csv'') out3))) =
         fst (snd (case csv_publisher d w s out2 of
                (Inl e, self2, out3) \<Rightarrow> (Inl e, self2, out3)
              | (Inr d, self2, out3) \<Rightarrow> (Inr (), self2, emit (Print ''done csv'') out3))) \<and>
         fs (snd (snd (case csv_publisher d w s out1 of
                (Inl e, self2, out3) \<Rightarrow> (Inl e, self2, out3)
              | (Inr d, self2, out3) \<Rightarrow> (Inr (), self2, emit (Print ''done csv'') out3)))) =
         fs (snd (snd (case csv_publisher d w s out2 of
                (Inl e, self2, out3) \<Rightarrow> (Inl e, self2, out3)
              | (Inr d, self2, out3) \<Rightarrow> (Inr (), self2, emit (Print ''done csv'') out3))))"
proof -
  obtain r1 s1 o1 where a: "csv_publisher d w s out1 = (r1, s1, o1)"
    by (cases "csv_publisher d w s out1") auto
  obtain r2 s2 o2 where b: "csv_publisher d w s out2 = (r2, s2, o2)"
    by (cases "csv_publisher d w s out2") auto
  from csv_publisher_fs_only [OF assms, of d w s] a b
  have "r1 = r2" "s1 = s2" "fs o1 = fs o2" by simp_all
  then show ?thesis
    by (cases r2) (simp_all add: a b emit_def)
qed

lemma with_suffix_error: "with_suffix p sfx = Inl x \<Longrightarrow> x = ValueError"
  by (auto simp: with_suffix_def Let_def split: prod.splits if_splits)

lemma open_write_error: "fst (open_write name content out) = Inl x \<Longrightarrow> \<exists>k. x = OSError k"
  by (auto simp: open_write_def Let_def split: prod.splits if_splits option.splits node.splits)

lemma csv_publisher_errors:
  assumes "fst (csv_publisher d w s out) = Inl x"
  shows "x = ValueError \<or> (\<exists>k. x = OSError k)"
proof (cases "with_suffix (Path (obj_path s)) []")
  case (Inl e)
  then show ?thesis using assms with_suffix_error [OF Inl]
    by (simp add: csv_publisher_def)
next
  case (Inr stripped)
  obtain r o1 where a: "open_write (str_path stripped @ ''_metadata.json'') (json_dump d) out = (r, o1)"
    by (cases "open_write (str_path stripped @ ''_metadata.json'') (json_dump d) out") auto
  show ?thesis
    using assms open_write_error [of "str_path stripped @ ''_metadata.json''" "json_dump d" out x] a
    by (cases r) (simp_all add: csv_publisher_def Let_def Inr)
qed

lemma implement_not_request_exception:
  "fst (ModelPublisher_implement_assets descr w self out) \<noteq> Inl (RequestException e)"
proof (cases "scene_name self")
  case None
  then show ?thesis by (simp add: ModelPublisher_implement_assets_def)
next
  case (Some sn)
  show ?thesis
  proof (cases "version self")
    case None
    then show ?thesis using Some by (simp add: ModelPublisher_implement_assets_def)
  next
    case (Some ver)
    from implement_normal_form [OF \<open>scene_name self = Some sn\<close> Some, of descr w out]
    obtain msg logged where
      nf: "ModelPublisher_implement_assets descr w self out =
       (case csv_publisher
               (publish_record (upper (take 8 (hex (uuid4 (urandom16 w))))) (strftime (now w))
                  sn ver (obj_path self) (getuser w) descr)
               w (self\<lparr>user := Some (getuser w)\<rparr>)
               (out\<lparr>trace := trace out @
                  [Post (environ_PIPELINE_DISCORD_BOT w) msg, logged, Print ''csv printing'']\<rparr>) of
          (Inl e, self2, out3) \<Rightarrow> (Inl e, self2, out3)
        | (Inr d, self2, out3) \<Rightarrow> (Inr (), self2, emit (Print ''done csv'') out3))"
      by blast
    obtain r s o3 where c: "csv_publisher
               (publish_record (upper (take 8 (hex (uuid4 (urandom16 w))))) (strftime (now w))
                  sn ver (obj_path self) (getuser w) descr)
               w (self\<lparr>user := Some (getuser w)\<rparr>)
               (out\<lparr>trace := trace out @
                  [Post (environ_PIPELINE_DISCORD_BOT w) msg, logged, Print ''csv printing'']\<rparr>) =
               (r, s, o3)"
      using prod_cases3 by blast
    have "r \<noteq> Inl (RequestException e)"
    proof
      assume "r = Inl (RequestException e)"
      with c have "fst (csv_publisher
               (publish_record (upper (take 8 (hex (uuid4 (urandom16 w))))) (strftime (now w))
                  sn ver (obj_path self) (getuser w) descr)
               w (self\<lparr>user := Some (getuser w)\<rparr>)
               (out\<lparr>trace := trace out @
                  [Post (environ_PIPELINE_DISCORD_BOT w) msg, logged, Print ''csv printing'']\<rparr>)) =
               Inl (RequestException e)"
        by simp
      from csv_publisher_errors [OF this] show False by simp
    qed
    then show ?thesis
      unfolding nf c by (cases r) simp_all
  qed
qed

text \<open>
  Claim C9. Whatever the transport does, the dispatcher returns its message: a failure of
  the post is printed and not raised, and the file system is not touched. The Implement
  stage does not depend on the transport: with any other behaviour of
  \<^verbatim>\<open>requests.post\<close> it returns the same result, leaves the same publisher and the
  same file system (so the same metadata record), and it never raises a
  \<^verbatim>\<open>RequestException\<close>.
\<close>

theorem notification_failure_is_caught:
  "(\<exists>msg logged.
      discord_notification asset_name ver department bot_url w self out =
        (Inr msg, self\<lparr>user := Some (getuser w)\<rparr>,
         out\<lparr>trace := trace out @ [Post bot_url msg, logged]\<rparr>) \<and>
      (\<forall>text. requests_post w bot_url msg = Inl text \<longrightarrow>
         logged = PrintError ''Discord notification failed: ''
                  (RequestException (TransportError text)))) \<and>
   (\<forall>post.
      fst (ModelPublisher_implement_assets descr (w\<lparr>requests_post := post\<rparr>) self out) =
        fst (ModelPublisher_implement_assets descr w self out) \<and>
      fst (snd (ModelPublisher_implement_assets descr (w\<lparr>requests_post := post\<rparr>) self out)) =
        fst (snd (ModelPublisher_implement_assets descr w self out)) \<and>
      fs (snd (snd (ModelPublisher_implement_assets descr (w\<lparr>requests_post := post\<rparr>) self out))) =
        fs (snd (snd (ModelPublisher_implement_assets descr w self out)))) \<and>
   (\<forall>e. fst (ModelPublisher_implement_assets descr w self out) \<noteq> Inl (RequestException e))"
proof (intro conjI allI)
  from discord_notification_result [of asset_name ver department bot_url w self out]
  show "\<exists>msg logged.
      discord_notification asset_name ver department bot_url w self out =
        (Inr msg, self\<lparr>user := Some (getuser w)\<rparr>,
         out\<lparr>trace := trace out @ [Post bot_url msg, logged]\<rparr>) \<and>
      (\<forall>text. requests_post w bot_url msg = Inl text \<longrightarrow>
         logged = PrintError ''Discord notification failed: ''
                  (RequestException (TransportError text)))"
    by blast
next
  fix e
  show "fst (ModelPublisher_implement_assets descr w self out) \<noteq> Inl (RequestException e)"
    by (rule implement_not_request_exception)
next
  fix post
  let ?w = "w\<lparr>requests_post := post\<rparr>"
  have all: "ModelPublisher_implement_assets descr ?w self out =
               ModelPublisher_implement_assets descr w self out \<or>
             (fst (ModelPublisher_implement_assets descr ?w self out) =
                fst (ModelPublisher_implement_assets descr w self out) \<and>
              fst (snd (ModelPublisher_implement_assets descr ?w self out)) =
                fst (snd (ModelPublisher_implement_assets descr w self out)) \<and>
              fs (snd (snd (ModelPublisher_implement_assets descr ?w self out))) =
                fs (snd (snd (ModelPublisher_implement_assets descr w self out))))"
  proof (cases "scene_name self")
    case None
    then show ?thesis by (simp add: ModelPublisher_implement_assets_def)
  next
    case (Some sn)
    show ?thesis
    proof (cases "version self")
      case None
      then show ?thesis using Some by (simp add: ModelPublisher_implement_assets_def)
    next
      case (Some ver)
      from implement_normal_form [OF \<open>scene_name self = Some sn\<close> Some, of descr w out]
      obtain msg logged where
        a: "ModelPublisher_implement_assets descr w self out =
         (case csv_publisher
                 (publish_record (upper (take 8 (hex (uuid4 (urandom16 w))))) (strftime (now w))
                    sn ver (obj_path self) (getuser w) descr)
                 w (self\<lparr>user := Some (getuser w)\<rparr>)
                 (out\<lparr>trace := trace out @
                    [Post (environ_PIPELINE_DISCORD_BOT w) msg, logged, Print ''csv printing'']\<rparr>) of
            (Inl e, self2, out3) \<Rightarrow> (Inl e, self2, out3)
          | (Inr d, self2, out3) \<Rightarrow> (Inr (), self2, emit (Print ''done csv'') out3))"
        by blast
      from implement_normal_form [OF \<open>scene_name self = Some sn\<close> Some, of descr ?w out]
      obtain msg' logged' where
        b: "ModelPublisher_implement_assets descr ?w self out =
         (case csv_publisher
                 (publish_record (upper (take 8 (hex (uuid4 (urandom16 w))))) (strftime (now w))
                    sn ver (obj_path self) (getuser w) descr)
                 w (self\<lparr>user := Some (getuser w)\<rparr>)
                 (out\<lparr>trace := trace out @
                    [Post (environ_PIPELINE_DISCORD_BOT w) msg', logged', Print ''csv printing'']\<rparr>) of
            (Inl e, self2, out3) \<Rightarrow> (Inl e, self2, out3)
          | (Inr d, self2, out3) \<Rightarrow> (Inr (), self2, emit (Print ''done csv'') out3))"
        using csv_publisher_world [of _ ?w _ _ w] by auto
      show ?thesis
        unfolding a b
        by (rule disjI2, rule implement_outcome_fs_only) simp
    qed
  qed
  show "fst (ModelPublisher_implement_assets descr ?w self out) =
          fst (ModelPublisher_implement_assets descr w self out)"
    using all by auto
  show "fst (snd (ModelPublisher_implement_assets descr ?w self out)) =
          fst (snd (ModelPublisher_implement_assets descr w self out))"
    using all by auto
  show "fs (snd (snd (ModelPublisher_implement_assets descr ?w self out))) =
          fs (snd (snd (ModelPublisher_implement_assets descr w self out)))"
    using all by auto
qed

text \<open>
  On the example, after Extract, with a webhook that cannot be reached: the Implement stage
  succeeds, and the sidecar is there.
\<close>

theorem notification_failure_is_caught_witness:
  "fst (ModelPublisher_implement_assets []
          (example_world\<lparr>requests_post := (\<lambda>url msg. Inl ''Connection refused'')\<rparr>)
          (fst example_extracted) (snd example_extracted)) = Inr () \<and>
   fs (snd (snd (ModelPublisher_implement_assets []
          (example_world\<lparr>requests_post := (\<lambda>url msg. Inl ''Connection refused'')\<rparr>)
          (fst example_extracted) (snd example_extracted))))
     (True, [''work'', ''project'', ''scenes'', ''assets'', ''show_seq010_model_v002'',
             ''modeling'', ''show_seq010_model_v002_metadata.json'']) \<noteq> None"
  using notification_failure_is_caught
    [where w = example_world and descr = "[]" and self = "fst example_extracted"
       and out = "snd example_extracted",
     THEN conjunct2, THEN conjunct1, rule_format,
     of "\<lambda>url msg. Inl ''Connection refused''"]
    implement_example implement_example_sidecar
  by simp

subsection \<open>The publish record\<close>

lemma hexdigit_upper:
  "(if 97 \<le> (of_char (hexdigit k) :: nat) \<and> (of_char (hexdigit k) :: nat) \<le> 122
    then char_of ((of_char (hexdigit k) :: nat) - 32) else hexdigit k)
   \<in> set ''0123456789ABCDEF''"
proof -
  have "k mod 16 < 16" by simp
  then consider "k mod 16 = 0" | "k mod 16 = 1" | "k mod 16 = 2" | "k mod 16 = 3"
    | "k mod 16 = 4" | "k mod 16 = 5" | "k mod 16 = 6" | "k mod 16 = 7"
    | "k mod 16 = 8" | "k mod 16 = 9" | "k mod 16 = 10" | "k mod 16 = 11"
    | "k mod 16 = 12" | "k mod 16 = 13" | "k mod 16 = 14" | "k mod 16 = 15"
    by atomize_elim arith
  then show ?thesis
    by cases (simp_all add: hexdigit_def char_of_eq_iff)
qed

lemma record_id_format: "id_format_ok (upper (take 8 (hex x)))"
proof -
  define S where "S = set ''0123456789ABCDEF''"
  define up where "up = (\<lambda>c. if 97 \<le> (of_char c :: nat) \<and> (of_char c :: nat) \<le> 122
                             then char_of ((of_char c :: nat) - 32) else c)"
  define digit where "digit = (\<lambda>i. hexdigit (unat (drop_bit (4 * (31 - i)) x AND 0xf)))"
  have in_S: "up (digit i) \<in> S" for i
    unfolding S_def up_def digit_def by (rule hexdigit_upper)
  have eq: "upper (take 8 (hex x)) = map (\<lambda>i. up (digit i)) (take 8 [0..<32])"
    by (simp only: upper_def hex_def take_map map_map o_def up_def digit_def)
  have len: "length (upper (take 8 (hex x))) = 8"
    unfolding eq by simp
  have all: "list_all (\<lambda>c. c \<in> S) (upper (take 8 (hex x)))"
    unfolding eq list_all_iff using in_S by auto
  show ?thesis
    unfolding id_format_ok_def using len all by (simp only: S_def simp_thms)
qed

lemma digit_char: "(k::nat) < 10 \<Longrightarrow> is_digit (char_of (48 + k))"
proof -
  assume "k < 10"
  then consider "k = 0" | "k = 1" | "k = 2" | "k = 3" | "k = 4" | "k = 5" | "k = 6" | "k = 7"
    | "k = 8" | "k = 9"
    by atomize_elim arith
  then show ?thesis
    by cases (simp_all add: is_digit_def char_of_eq_iff)
qed

lemma str_nat_one: "n < 10 \<Longrightarrow> str_nat n = [char_of (48 + n)]"
  by (simp add: str_nat.simps [of n])

lemma zero_char: "CHR ''0'' = char_of (48::nat)"
  by (rule sym) (simp add: char_of_eq_iff)

lemma two_digits_eq:
  "n < 100 \<Longrightarrow> two_digits n = [char_of (48 + n div 10), char_of (48 + n mod 10)]"
proof (cases "n < 10")
  case True
  then show ?thesis by (simp add: two_digits_def str_nat_one zero_char)
next
  case False
  assume "n < 100"
  then have "n div 10 < 10" by simp
  then show ?thesis
    using False by (simp add: two_digits_def str_nat.simps [of n] str_nat_one)
qed

lemma str_nat_four:
  assumes "1000 \<le> n" and "n \<le> 9999"
  shows "str_nat n =
           [char_of (48 + n div 1000), char_of (48 + n div 100 mod 10),
            char_of (48 + n div 10 mod 10), char_of (48 + n mod 10)]"
proof -
  have big: "\<not> n < 10" "\<not> n div 10 < 10" "\<not> n div 100 < 10" "n div 1000 < 10"
    using assms by simp_all
  have dd: "n div 10 div 10 = n div 100" "n div 100 div 10 = n div 1000"
    by (simp_all add: div_mult2_eq [symmetric])
  have a: "str_nat n = str_nat (n div 10) @ [char_of (48 + n mod 10)]"
    using big by (simp add: str_nat.simps [of n])
  have b: "str_nat (n div 10) = str_nat (n div 100) @ [char_of (48 + n div 10 mod 10)]"
    using big by (simp add: str_nat.simps [of "n div 10"] dd)
  have c: "str_nat (n div 100) = str_nat (n div 1000) @ [char_of (48 + n div 100 mod 10)]"
    using big by (simp add: str_nat.simps [of "n div 100"] dd)
  have d: "str_nat (n div 1000) = [char_of (48 + n div 1000)]"
    using big by (simp add: str_nat_one)
  show ?thesis by (simp add: a b c d)
qed

lemma strftime_format:
  assumes "datetime_in_range t"
  shows "date_format_ok (strftime t)"
proof -
  have y: "1000 \<le> year t" "year t \<le> 9999" and m: "month t < 100" and d: "day t < 100"
    and h: "hour t < 100" and mi: "minute t < 100" and s: "second t < 100"
    using assms by (simp_all add: datetime_in_range_def)
  have y1: "year t div 1000 < 10" using y by simp
  show ?thesis
    unfolding strftime_def str_nat_four [OF y] two_digits_eq [OF m] two_digits_eq [OF d]
      two_digits_eq [OF h] two_digits_eq [OF mi] two_digits_eq [OF s]
    using m d h mi s y1
    by (simp add: date_format_ok_def digit_char)
qed

lemma json_dump_record:
  "json_dump (publish_record record_id date name ver path usr descr) =
     ''{'' @ [CHR 0x0A] @
     json_line ''id'' record_id @ '','' @ [CHR 0x0A] @
     json_line ''date'' date @ '','' @ [CHR 0x0A] @
     json_line ''name'' name @ '','' @ [CHR 0x0A] @
     json_line ''version'' ver @ '','' @ [CHR 0x0A] @
     json_line ''path'' path @ '','' @ [CHR 0x0A] @
     json_line ''user'' usr @ '','' @ [CHR 0x0A] @
     json_line ''description'' descr @ [CHR 0x0A] @ ''}''"
  by (simp add: json_dump_def publish_record_def json_line_def quoted_def json_string_def
      json_escape_def)

lemma suffix_stem:
  assumes "name \<noteq> []"
  shows "(let old_suffix = suffix (anchor, butl @ [name])
          in if old_suffix = [] then name @ []
             else take (length name - length old_suffix) name @ []) = stem name"
proof (cases "CHR ''.'' \<in> set name")
  case False
  then show ?thesis by (simp add: suffix_def rfind_def stem_def Let_def)
next
  case True
  define l where "l = length (takeWhile (\<lambda>c. c \<noteq> CHR ''.'') (rev name))"
  have "takeWhile (\<lambda>c. c \<noteq> CHR ''.'') (rev name) \<noteq> rev name"
    using True by auto
  then have "l \<noteq> length (rev name)"
    unfolding l_def by (metis takeWhile_eq_take take_all_iff order_refl)
  moreover have "l \<le> length (rev name)"
    unfolding l_def by (rule length_takeWhile_le)
  ultimately have lt: "l < length name" by simp
  have i: "rfind CHR ''.'' name = int (length name - 1 - l)"
    using True lt by (simp add: rfind_def l_def)
  show ?thesis
  proof (cases "0 < l \<and> l + 1 < length name")
    case True
    have ni: "nat (rfind CHR ''.'' name) = length name - 1 - l"
      unfolding i by (rule nat_int)
    have c: "0 < rfind CHR ''.'' name \<and> rfind CHR ''.'' name < int (length name) - 1"
      unfolding i using True lt by linarith
    have "suffix (anchor, butl @ [name]) = drop (nat (rfind CHR ''.'' name)) name"
      using c by (simp add: suffix_def Let_def)
    then have "suffix (anchor, butl @ [name]) = drop (length name - 1 - l) name"
      by (simp only: ni)
    moreover have "length (drop (length name - 1 - l) name) = l + 1"
      using lt by simp
    moreover have "takeWhile (\<lambda>c. c \<noteq> CHR ''.'') (rev name) \<noteq> []"
      using True by (auto simp: l_def)
    ultimately show ?thesis
      using True \<open>CHR ''.'' \<in> set name\<close> lt
      by (simp add: stem_def Let_def l_def [symmetric])
  next
    case False
    then have c: "\<not> (0 < rfind CHR ''.'' name \<and> rfind CHR ''.'' name < int (length name) - 1)"
      unfolding i using lt by linarith
    have "suffix (anchor, butl @ [name]) = []"
      using c by (auto simp: suffix_def Let_def)
    moreover have "(takeWhile (\<lambda>c. c \<noteq> CHR ''.'') (rev name) = []) = (l = 0)"
      by (simp add: l_def)
    ultimately show ?thesis
      using False by (auto simp: stem_def Let_def l_def [symmetric])
  qed
qed

lemma with_suffix_stem:
  "with_suffix (anchor, tail) [] =
     (if tail = [] \<or> last tail = [] then Inl ValueError
      else Inr (anchor, butlast tail @ [stem (last tail)]))"
proof (cases "tail = [] \<or> last tail = []")
  case True
  then show ?thesis by (auto simp: with_suffix_def Let_def)
next
  case False
  then have t: "tail = butlast tail @ [last tail]" by simp
  have "with_suffix (anchor, butlast tail @ [last tail]) [] =
          Inr (anchor, butlast tail @ [stem (last tail)])"
    using False suffix_stem [of "last tail" anchor "butlast tail"]
    by (auto simp: with_suffix_def Let_def split: if_splits)
  then show ?thesis using False t by simp
qed

lemma example_id:
  "upper (take 8 (hex (uuid4 (urandom16 example_world)))) = ''3F2A9C0E''"
proof -
  have r8: "take 8 [0..<32] = [0, 1, 2, 3, 4, 5, 6, 7::nat]"
    by (simp add: upt_rec [of _ 32])
  have u: "uuid4 (0x3f2a9c0e11d24b7a8c5e0f1a2b3c4d5e :: 128 word) =
             0x3f2a9c0e11d24b7a8c5e0f1a2b3c4d5e"
    by (simp add: uuid4_def)
  show ?thesis
    by (simp add: example_world_def u hex_def take_map r8 upper_def hexdigit_def char_of_eq_iff)
qed

lemma example_date: "strftime (now example_world) = ''20250309-140507''"
  by (simp add: example_world_def strftime_def two_digits_eq str_nat_four char_of_eq_iff)

lemma example_answers:
  "requests_post example_world url msg = Inr 204"
  "getuser example_world = ''artist''"
  "environ_PIPELINE_DISCORD_BOT example_world = Some ''https://discord.example/api/webhooks/1''"
  by (simp_all add: example_world_def)

lemma replicate_spaces:
  "replicate 4 CHR '' '' = ''    ''"
  "replicate 36 CHR '' '' = ''                                    ''"
  by (simp_all add: numeral_eq_Suc)

lemma implement_exported:
  "ModelPublisher_implement_assets example_description example_world
     (fst example_exported) (snd example_exported) =
   (Inr (),
    (fst example_exported)\<lparr>user := Some ''artist''\<rparr>,
    \<lparr>trace =
       [Post (Some ''https://discord.example/api/webhooks/1'')
          \<lparr>username = ''Pipeline Bot'', title = ''Asset Published Successfully.'',
           description =
             ''show_model_v002 version: v002 for modeling '' @ [CHR 0x0A] @
             ''                                    has been successfully exported by artist.'',
           color = 5763719\<rparr>,
        Print ''Discord notification sent.'', Print ''csv printing'',
        OpenWrite ''/work/publish/show_model.v002_metadata.json'', Print ''done csv''],
     fs = [(True, [''work'']) \<mapsto> Dir, (True, [''work'', ''publish'']) \<mapsto> Dir,
           (True, [''work'', ''publish'', ''show_model.v002_metadata.json'']) \<mapsto>
           File (''{'' @ [CHR 0x0A] @
             ''    '' @ quoted ''id'' @ '': '' @ quoted ''3F2A9C0E'' @ '','' @ [CHR 0x0A] @
             ''    '' @ quoted ''date'' @ '': '' @ quoted ''20250309-140507'' @ '','' @
             [CHR 0x0A] @
             ''    '' @ quoted ''name'' @ '': '' @ quoted ''show_model_v002'' @ '','' @
             [CHR 0x0A] @
             ''    '' @ quoted ''version'' @ '': '' @ quoted ''v002'' @ '','' @ [CHR 0x0A] @
             ''    '' @ quoted ''path'' @ '': '' @
               quoted ''/work/publish/show_model.v002.obj'' @ '','' @ [CHR 0x0A] @
             ''    '' @ quoted ''user'' @ '': '' @ quoted ''artist'' @ '','' @ [CHR 0x0A] @
             ''    '' @ quoted ''description'' @ '': '' @
               quoted (''say '' @ [CHR 0x5C, CHR 0x22] @ ''hi'' @
                 [CHR 0x5C, CHR 0x22, CHR 0x5C, CHR 0x5C, CHR 0x5C] @ ''b'' @ [CHR 0x5C] @
                 ''f'' @ [CHR 0x5C] @ ''n'' @ [CHR 0x5C] @ ''r'' @ [CHR 0x5C] @ ''t'' @
                 [CHR 0x5C] @ ''u0001'' @ [CHR 0x5C] @ ''u007f'' @ [CHR 0x5C] @ ''u00e9!'') @
             [CHR 0x0A] @ ''}'')]\<rparr>)"
  by (simp add: example_exported_def example_description_def example_pub_def init_def
      ModelPublisher_implement_assets_def Let_def discord_notification_def
      discord_notification_try_def emit_def csv_publisher_def with_suffix_def suffix_def
      rfind_def Path_def splitroot_def str_path_def open_write_def resolve_def
      example_id example_date example_answers json_dump_def json_string_def json_escape_def
      hexdigit_def quoted_def replicate_spaces)

text \<open>
  Claim C10. An Implement stage that succeeds in a year of four digits has written one
  file, once: the sidecar, whose path is the export base path with the extension of its last
  component stripped, followed by \<^verbatim>\<open>_metadata.json\<close>. Nothing else in the file system has
  changed, and the stage's trace is the post, its one line of log, and the opening of that
  file between two prints. The file holds the record as an object printed on nine lines, the
  seven fields id, date, name, version, path, user and description in this order, each
  indented by four spaces. The id is eight characters out of 0-9 and A-F, the date is eight
  digits, a hyphen and six digits.
\<close>

theorem implement_writes_one_record:
  assumes "fst (ModelPublisher_implement_assets descr w self out) = Inr ()"
    and "datetime_in_range (now w)"
  shows "\<exists>sn ver anchor tail msg logged record_id date.
           scene_name self = Some sn \<and> version self = Some ver \<and>
           Path (obj_path self) = (anchor, tail) \<and> tail \<noteq> [] \<and>
           id_format_ok record_id \<and> date_format_ok date \<and>
           snd (snd (ModelPublisher_implement_assets descr w self out)) =
             out\<lparr>trace := trace out @
                    [Post (environ_PIPELINE_DISCORD_BOT w) msg, logged, Print ''csv printing'',
                     OpenWrite (str_path (anchor, butlast tail @ [stem (last tail)]) @
                                ''_metadata.json''),
                     Print ''done csv''],
                 fs := (fs out)
                   (resolve (str_path (anchor, butlast tail @ [stem (last tail)]) @
                             ''_metadata.json'') \<mapsto>
                    File (json_dump
                      (publish_record record_id date sn ver (obj_path self) (getuser w) descr)))\<rparr> \<and>
           json_dump (publish_record record_id date sn ver (obj_path self) (getuser w) descr) =
             ''{'' @ [CHR 0x0A] @
             json_line ''id'' record_id @ '','' @ [CHR 0x0A] @
             json_line ''date'' date @ '','' @ [CHR 0x0A] @
             json_line ''name'' sn @ '','' @ [CHR 0x0A] @
             json_line ''version'' ver @ '','' @ [CHR 0x0A] @
             json_line ''path'' (obj_path self) @ '','' @ [CHR 0x0A] @
             json_line ''user'' (getuser w) @ '','' @ [CHR 0x0A] @
             json_line ''description'' descr @ [CHR 0x0A] @ ''}''"
proof -
  obtain sn where sn: "scene_name self = Some sn"
    using assms(1) by (cases "scene_name self") (simp_all add: ModelPublisher_implement_assets_def)
  obtain ver where ver: "version self = Some ver"
    using assms(1) sn by (cases "version self") (simp_all add: ModelPublisher_implement_assets_def)
  let ?rid = "upper (take 8 (hex (uuid4 (urandom16 w))))"
  let ?date = "strftime (now w)"
  let ?data = "publish_record ?rid ?date sn ver (obj_path self) (getuser w) descr"
  let ?self1 = "self\<lparr>user := Some (getuser w)\<rparr>"
  from implement_normal_form [OF sn ver, of descr w out]
  obtain msg logged where
    nf: "ModelPublisher_implement_assets descr w self out =
       (case csv_publisher ?data w ?self1
               (out\<lparr>trace := trace out @
                  [Post (environ_PIPELINE_DISCORD_BOT w) msg, logged, Print ''csv printing'']\<rparr>) of
          (Inl e, self2, out3) \<Rightarrow> (Inl e, self2, out3)
        | (Inr d, self2, out3) \<Rightarrow> (Inr (), self2, emit (Print ''done csv'') out3))"
    by blast
  let ?out2 = "out\<lparr>trace := trace out @
                  [Post (environ_PIPELINE_DISCORD_BOT w) msg, logged, Print ''csv printing'']\<rparr>"
  obtain anchor tail where pa: "Path (obj_path self) = (anchor, tail)"
    by (cases "Path (obj_path self)") auto
  obtain stripped where st: "with_suffix (anchor, tail) [] = Inr stripped"
    using assms(1) unfolding nf
    by (cases "with_suffix (anchor, tail) []") (simp_all add: csv_publisher_def pa)
  have tail: "tail \<noteq> []" and stripped: "stripped = (anchor, butlast tail @ [stem (last tail)])"
    using st unfolding with_suffix_stem by (simp_all split: if_splits)
  let ?db = "str_path stripped @ ''_metadata.json''"
  obtain r o3 where ow: "open_write ?db (json_dump ?data) ?out2 = (r, o3)"
    by (cases "open_write ?db (json_dump ?data) ?out2") auto
  have r: "r = Inr ()"
    using assms(1) unfolding nf by (cases r) (simp_all add: csv_publisher_def Let_def pa st ow)
  have o3: "o3 = ?out2\<lparr>trace := trace ?out2 @ [OpenWrite ?db],
                        fs := (fs ?out2)(resolve ?db \<mapsto> File (json_dump ?data))\<rparr>"
    using open_write_success [of ?db "json_dump ?data" ?out2] ow r by simp
  have final: "snd (snd (ModelPublisher_implement_assets descr w self out)) =
      out\<lparr>trace := trace out @
             [Post (environ_PIPELINE_DISCORD_BOT w) msg, logged, Print ''csv printing'',
              OpenWrite ?db, Print ''done csv''],
          fs := (fs out)(resolve ?db \<mapsto> File (json_dump ?data))\<rparr>"
    unfolding nf by (simp add: csv_publisher_def Let_def pa st ow r o3 emit_def)
  show ?thesis
    using sn ver pa tail record_id_format [of "uuid4 (urandom16 w)"]
      strftime_format [OF assms(2)] final [unfolded stripped]
      json_dump_record [of ?rid ?date sn ver "obj_path self" "getuser w" descr]
    by blast
qed

text \<open>
  On a publisher whose export base path ends in \<^verbatim>\<open>show_model.v002.obj\<close>, with a
  description that JSON has to escape: the hypotheses hold, the sidecar is
  \<^verbatim>\<open>show_model.v002_metadata.json\<close> beside the export, and its text is as Python
  writes it.
\<close>

theorem implement_writes_one_record_witness:
  "fst (ModelPublisher_implement_assets example_description example_world
     (fst example_exported) (snd example_exported)) = Inr () \<and>
   datetime_in_range (now example_world) \<and>
   (\<exists>anchor tail.
      Path (obj_path (fst example_exported)) = (anchor, tail) \<and>
      str_path (anchor, butlast tail @ [stem (last tail)]) @ ''_metadata.json'' =
        ''/work/publish/show_model.v002_metadata.json'') \<and>
   snd (snd (ModelPublisher_implement_assets example_description example_world
     (fst example_exported) (snd example_exported))) =
    \<lparr>trace =
       [Post (Some ''https://discord.example/api/webhooks/1'')
          \<lparr>username = ''Pipeline Bot'', title = ''Asset Published Successfully.'',
           description =
             ''show_model_v002 version: v002 for modeling '' @ [CHR 0x0A] @
             ''                                    has been successfully exported by artist.'',
           color = 5763719\<rparr>,
        Print ''Discord notification sent.'', Print ''csv printing'',
        OpenWrite ''/work/publish/show_model.v002_metadata.json'', Print ''done csv''],
     fs = [(True, [''work'']) \<mapsto> Dir, (True, [''work'', ''publish'']) \<mapsto> Dir,
           (True, [''work'', ''publish'', ''show_model.v002_metadata.json'']) \<mapsto>
           File (''{'' @ [CHR 0x0A] @
             ''    '' @ quoted ''id'' @ '': '' @ quoted ''3F2A9C0E'' @ '','' @ [CHR 0x0A] @
             ''    '' @ quoted ''date'' @ '': '' @ quoted ''20250309-140507'' @ '','' @
             [CHR 0x0A] @
             ''    '' @ quoted ''name'' @ '': '' @ quoted ''show_model_v002'' @ '','' @
             [CHR 0x0A] @
             ''    '' @ quoted ''version'' @ '': '' @ quoted ''v002'' @ '','' @ [CHR 0x0A] @
             ''    '' @ quoted ''path'' @ '': '' @
               quoted ''/work/publish/show_model.v002.obj'' @ '','' @ [CHR 0x0A] @
             ''    '' @ quoted ''user'' @ '': '' @ quoted ''artist'' @ '','' @ [CHR 0x0A] @
             ''    '' @ quoted ''description'' @ '': '' @
               quoted (''say '' @ [CHR 0x5C, CHR 0x22] @ ''hi'' @
                 [CHR 0x5C, CHR 0x22, CHR 0x5C, CHR 0x5C, CHR 0x5C] @ ''b'' @ [CHR 0x5C] @
                 ''f'' @ [CHR 0x5C] @ ''n'' @ [CHR 0x5C] @ ''r'' @ [CHR 0x5C] @ ''t'' @
                 [CHR 0x5C] @ ''u0001'' @ [CHR 0x5C] @ ''u007f'' @ [CHR 0x5C] @ ''u00e9!'') @
             [CHR 0x0A] @ ''}'')]\<rparr> \<and>
   uuid4 (0xffffffffffffffffffffffffffffffff :: 128 word) = 0xffffffffffff4fffbfffffffffffffff"
proof -
  have ok: "fst (ModelPublisher_implement_assets example_description example_world
     (fst example_exported) (snd example_exported)) = Inr ()"
    by (simp add: implement_exported)
  have h: "datetime_in_range (now example_world)"
    by (simp add: datetime_in_range_def example_world_def)
  from implement_writes_one_record [OF ok h]
  obtain anchor tail where
    pa: "Path (obj_path (fst example_exported)) = (anchor, tail)"
    by blast
  have "Path (obj_path (fst example_exported)) =
          (''/'', [''work'', ''publish'', ''show_model.v002.obj''])"
    by (simp add: example_exported_def Path_def splitroot_def)
  with pa have at: "anchor = ''/''" "tail = [''work'', ''publish'', ''show_model.v002.obj'']"
    by simp_all
  have "str_path (anchor, butlast tail @ [stem (last tail)]) @ ''_metadata.json'' =
        ''/work/publish/show_model.v002_metadata.json''"
    unfolding at by (simp add: str_path_def stem_def)
  with pa have p: "\<exists>anchor tail.
      Path (obj_path (fst example_exported)) = (anchor, tail) \<and>
      str_path (anchor, butlast tail @ [stem (last tail)]) @ ''_metadata.json'' =
        ''/work/publish/show_model.v002_metadata.json''"
    by blast
  have u: "uuid4 (0xffffffffffffffffffffffffffffffff :: 128 word) =
             0xffffffffffff4fffbfffffffffffffff"
    by (simp add: uuid4_def)
  show ?thesis
    using ok h p u by (simp add: implement_exported)
qed

end
